theory Spec2Isabelle
  imports Complex_Main
begin

section \<open>Data model of the scanning magnetometer logic\<close>

text \<open>
  The development embeds \<^verbatim>\<open>MagnetometerLogic\<close> of
  \<^verbatim>\<open>logic/scanning_magnetometry_logic.py\<close>.  Python and numpy floats are read as
  real numbers, Python integers as \<open>int\<close>, and the two mode attributes stay the strings
  the source compares them with.  The fields \<open>odmr_mw_start\<close>, \<open>odmr_mw_stop\<close> and
  \<open>odmr_mw_step\<close> are the attributes the source keeps on \<^verbatim>\<open>self._odmr_logic\<close>;
  \<open>hw_calls\<close> counts the acquisitions asked of the hardware so far and \<open>emitted\<close> lists
  the signals emitted so far; the last three constructors of \<open>signal\<close> record the start
  of a worker thread on \<^verbatim>\<open>scan_pixel\<close>, \<^verbatim>\<open>_hpix_end\<close> or \<^verbatim>\<open>_vpix_end\<close>.
  Every method takes the object state and returns the
  state it leaves behind together with either its return value or the exception that
  leaves it, so that the state at the moment of a raise is part of the result.
\<close>

datatype py_error =
    TypeError | IndexError | ValueError | ZeroDivisionError | AttributeError | NaNValue

datatype param_value = PNum real | PInt int | PList "real list"

datatype signal =
    SigNextLine
  | SigParamUpdated "(string \<times> param_value) list"
  | SigPlotsUpdated
  | SigStopScan bool
  | SigUpdateDuration
  | SigUpdateRemTime
  | SigScanPixelOver "real list list option" "real list list option"
  | SigFinishedDataTreatment
  | ThreadScanPixel
  | ThreadHpixEnd
  | ThreadVpixEnd

record magnetometer =
  locked :: bool
  stopRequested :: bool
  meas_mode :: string
  scan_mode :: string
  incr :: nat
  image_size :: nat
  scanline_size :: nat
  line_number :: int
  resolution :: "int \<times> int"
  range :: "real list \<times> real list"
  center_position :: "real \<times> real"
  return_slowness :: real
  clock_frequency :: real
  duration :: real
  z_scanner_range :: real
  coeff_topo :: real
  pl_image :: "real list list list"
  topo_corr :: "real list list"
  grid_X :: "real list"
  grid_Y :: "real list"
  return_X :: "real list"
  return_Y :: "real list"
  current_position :: "real \<times> real"
  line_position :: "nat \<times> nat"
  mw_start :: real
  mw_stop :: real
  mw_step :: real
  mw_step_hf :: real
  min_fullb :: real
  max_fullb :: real
  threshold :: real
  resonance_frequency :: real
  number_sweeps :: int
  freq1 :: real
  freq2 :: real
  odmr_mw_start :: real
  odmr_mw_stop :: real
  odmr_mw_step :: real
  freq_list :: "real list"
  esr_line :: "(real \<times> real) list"
  hw_calls :: nat
  emitted :: "signal list"

type_synonym 'a outcome = "(py_error + 'a) \<times> magnetometer"

definition emit :: "signal \<Rightarrow> magnetometer \<Rightarrow> magnetometer" where
  "emit sg s = s\<lparr>emitted := emitted s @ [sg]\<rparr>"

section \<open>Duration estimate\<close>

text \<open>
  \<^verbatim>\<open>compute_scan_duration\<close>: the local \<^verbatim>\<open>fwd\<close>, the local \<^verbatim>\<open>bwd\<close> and the
  stored \<^verbatim>\<open>self.duration\<close>.  Python's \<^verbatim>\<open>/\<close> raises on a zero divisor and
  \<^verbatim>\<open>self.range[0][1]\<close> raises on a short list; the text handed to the display by
  \<^verbatim>\<open>format_time\<close> is not modelled.
\<close>

definition fwd_time :: "magnetometer \<Rightarrow> py_error + real" where
  "fwd_time s =
     (if clock_frequency s = 0 then Inl ZeroDivisionError
      else if meas_mode s = ''quenching'' then
        Inr (of_int (fst (resolution s)) * of_int (snd (resolution s)) / clock_frequency s)
      else if meas_mode s = ''isob'' then
        Inr (2 * of_int (fst (resolution s)) * of_int (snd (resolution s)) / clock_frequency s)
      else
        Inr (of_int (2 + line_number s) * of_int (fst (resolution s))
               * of_int (snd (resolution s)) / clock_frequency s))"

definition bwd_time :: "magnetometer \<Rightarrow> py_error + real" where
  "bwd_time s =
     (if scan_mode s = ''_hpix'' then
        (if length (fst (range s)) < 2 then Inl IndexError
         else if return_slowness s = 0 then Inl ZeroDivisionError
         else if clock_frequency s = 0 then Inl ZeroDivisionError
         else Inr (of_int (snd (resolution s))
                    * ((fst (range s) ! 1 - fst (range s) ! 0) / return_slowness s)
                    / clock_frequency s))
      else
        (if length (snd (range s)) < 2 then Inl IndexError
         else if return_slowness s = 0 then Inl ZeroDivisionError
         else if clock_frequency s = 0 then Inl ZeroDivisionError
         else Inr (of_int (fst (resolution s))
                    * ((snd (range s) ! 1 - snd (range s) ! 0) / return_slowness s)
                    / clock_frequency s)))"

definition compute_scan_duration :: "magnetometer \<Rightarrow> unit outcome" where
  "compute_scan_duration s =
     (case fwd_time s of
        Inl e \<Rightarrow> (Inl e, s)
      | Inr fwd \<Rightarrow>
          (case bwd_time s of
             Inl e \<Rightarrow> (Inl e, s)
           | Inr bwd \<Rightarrow> (Inr (), s\<lparr>duration := 1.8 * (fwd + bwd)\<rparr>)))"

section \<open>Scan parameter setters\<close>

text \<open>
  The common tail of the four setters: recompute the duration and publish it twice.
\<close>

definition publish_duration :: "magnetometer \<Rightarrow> unit outcome" where
  "publish_duration s =
     (case compute_scan_duration s of
        (Inl e, s') \<Rightarrow> (Inl e, s')
      | (Inr _, s') \<Rightarrow> (Inr (), emit SigUpdateRemTime (emit SigUpdateDuration s')))"

text \<open>
  A method that ends with \<^verbatim>\<open>return self.field\<close> after a call that may raise.
\<close>

definition returning :: "unit outcome \<Rightarrow> (magnetometer \<Rightarrow> 'a) \<Rightarrow> 'a outcome" where
  "returning p field =
     (case fst p of Inl e \<Rightarrow> (Inl e, snd p) | Inr _ \<Rightarrow> (Inr (field (snd p)), snd p))"

text \<open>
  \<^verbatim>\<open>set_clock_frequency\<close>; the argument is \<open>None\<close> when it is neither an
  \<^verbatim>\<open>int\<close> nor a \<^verbatim>\<open>float\<close>.
\<close>

definition set_clock_frequency :: "magnetometer \<Rightarrow> real option \<Rightarrow> real outcome" where
  "set_clock_frequency s time_clock =
     (if locked s \<or> time_clock = None then (Inr (clock_frequency s), s)
      else if the time_clock = 0 then (Inl ZeroDivisionError, s)
      else
        (let s1 = s\<lparr>clock_frequency := 1 / the time_clock\<rparr>;
             s2 = emit (SigParamUpdated [(''clock_frequency'', PNum (clock_frequency s1))]) s1
         in returning (publish_duration s2) clock_frequency))"

text \<open>\<^verbatim>\<open>set_range\<close>; the two slices of the argument are \<open>take\<close> and \<open>drop\<close>.\<close>

definition set_range :: "magnetometer \<Rightarrow> real list \<Rightarrow> (real list \<times> real list) outcome" where
  "set_range s range_scan =
     (if locked s then (Inr (range s), s)
      else
        (let s1 = s\<lparr>range := (take 2 range_scan, take 2 (drop 2 range_scan))\<rparr>;
             s2 = emit (SigParamUpdated [(''x_range'', PList (fst (range s1))),
                                         (''y_range'', PList (snd (range s1)))]) s1
         in returning (publish_duration s2) range))"

text \<open>\<^verbatim>\<open>set_resolution\<close>; Python's \<^verbatim>\<open>%\<close> with divisor 2 is \<open>mod\<close> on \<open>int\<close>.\<close>

definition set_resolution :: "magnetometer \<Rightarrow> int \<Rightarrow> int \<Rightarrow> (int \<times> int) outcome" where
  "set_resolution s x_res y_res =
     (if locked s then (Inr (resolution s), s)
      else
        (let x_res' = (if x_res mod 2 = 1 then x_res - 1 else x_res);
             y_res' = (if y_res mod 2 = 1 then y_res - 1 else y_res);
             s1 = s\<lparr>resolution := (x_res', y_res')\<rparr>;
             s2 = emit (SigParamUpdated [(''x_resolution'', PInt (fst (resolution s1))),
                                         (''y_resolution'', PInt (snd (resolution s1)))]) s1
         in returning (publish_duration s2) resolution))"

text \<open>\<^verbatim>\<open>set_return_slowness\<close>.\<close>

definition set_return_slowness :: "magnetometer \<Rightarrow> real \<Rightarrow> real outcome" where
  "set_return_slowness s rs =
     (if locked s then (Inr (return_slowness s), s)
      else
        (let s1 = s\<lparr>return_slowness := rs\<rparr>;
             s2 = emit (SigParamUpdated [(''return_slowness'', PNum (return_slowness s1))]) s1
         in returning (publish_duration s2) return_slowness))"

section \<open>Arrays\<close>

text \<open>
  A numpy array of two or three axes is the list of its rows.  The image
  \<^verbatim>\<open>self.pl_image\<close> is indexed \<open>[row][column][channel]\<close>; the empty list stands for
  the attribute before its first allocation, where every access raises.
  \<^verbatim>\<open>np.linspace(a, b, num)\<close> raises on a negative count, and \<^verbatim>\<open>np.rint\<close>
  rounds a tie to the even neighbour.
\<close>

type_synonym image = "real list list list"

definition linspace :: "real \<Rightarrow> real \<Rightarrow> int \<Rightarrow> py_error + real list" where
  "linspace a b num =
     (if num < 0 then Inl ValueError
      else if num = 1 then Inr [a]
      else Inr (map (\<lambda>i. a + of_nat i * ((b - a) / of_int (num - 1))) [0..<nat num]))"

definition arange :: "real \<Rightarrow> real \<Rightarrow> real \<Rightarrow> py_error + real list" where
  "arange a b step =
     (if step = 0 then Inl ZeroDivisionError
      else Inr (map (\<lambda>i. a + of_nat i * step) [0..<nat \<lceil>(b - a) / step\<rceil>]))"

definition rint :: "real \<Rightarrow> int" where
  "rint x =
     (let f = \<lfloor>x\<rfloor>; d = x - of_int f
      in if d < 1 / 2 then f else if 1 / 2 < d then f + 1
         else if even f then f else f + 1)"

definition zero_image :: "nat \<Rightarrow> nat \<Rightarrow> nat \<Rightarrow> image" where
  "zero_image rows cols chans = replicate rows (replicate cols (replicate chans 0))"

definition set_channel :: "image \<Rightarrow> nat \<Rightarrow> (nat \<Rightarrow> nat \<Rightarrow> real) \<Rightarrow> image" where
  "set_channel img ch f =
     map (\<lambda>r. map (\<lambda>c. (img ! r ! c)[ch := f r c]) [0..<length (img ! r)]) [0..<length img]"

section \<open>Image allocation and measurement mode\<close>

text \<open>
  \<^verbatim>\<open>initialize_image\<close>.  The display buffers \<^verbatim>\<open>scanline\<close> and \<^verbatim>\<open>mean_pl\<close>
  are not kept in the state.  The statements that build the retrace arrays raise on an
  empty grid (\<^verbatim>\<open>self._X[0]\<close>) and on a zero step of \<^verbatim>\<open>np.arange\<close>; they come
  before the allocation, so an allocated image has at least one row and one column.
\<close>

text \<open>
  The allocation itself, lines 569 to 574: the zero array, the x positions written into
  channel 0 and the y positions into channel 1, and the zero correction plane.
\<close>

definition allocate_image :: "magnetometer \<Rightarrow> nat \<Rightarrow> int outcome" where
  "allocate_image s img_size =
     (let xs = grid_X s; ys = grid_Y s;
          img0 = zero_image (length ys) (length xs) img_size
      in if img_size = 0 then (Inl IndexError, s\<lparr>pl_image := img0\<rparr>)
         else
           (let img1 = set_channel img0 0 (\<lambda>r c. xs ! c)
            in if img_size = 1 then (Inl IndexError, s\<lparr>pl_image := img1\<rparr>)
               else
                 (Inr 0,
                  s\<lparr>pl_image := set_channel img1 1 (\<lambda>r c. ys ! r),
                    topo_corr := replicate (length ys) (replicate (length xs) 0)\<rparr>)))"

definition initialize_image :: "magnetometer \<Rightarrow> nat \<Rightarrow> nat \<Rightarrow> int outcome" where
  "initialize_image s img_size scanline_sz =
     (if length (fst (range s)) < 2 \<or> length (snd (range s)) < 2 then (Inl IndexError, s)
      else
        (let h_range = fst (range s) ! 1 - fst (range s) ! 0;
             v_range = snd (range s) ! 1 - snd (range s) ! 0;
             x0 = fst (center_position s) - h_range * 0.5;
             x1 = fst (center_position s) + h_range * 0.5;
             y0 = snd (center_position s) - v_range * 0.5;
             y1 = snd (center_position s) + v_range * 0.5
         in if x1 < x0 then (Inr (- 1), s)
            else if y1 < y0 then (Inr (- 1), s)
            else
              (case linspace x0 x1 (fst (resolution s)) of
                 Inl e \<Rightarrow> (Inl e, s)
               | Inr xs \<Rightarrow>
                  (case linspace y0 y1 (snd (resolution s)) of
                     Inl e \<Rightarrow> (Inl e, s\<lparr>grid_X := xs\<rparr>)
                   | Inr ys \<Rightarrow>
                      (let s1 = s\<lparr>grid_X := xs, grid_Y := ys\<rparr>
                       in if xs = [] then (Inl IndexError, s1)
                          else
                            (case arange (hd xs) (last xs) (return_slowness s) of
                               Inl e \<Rightarrow> (Inl e, s1)
                             | Inr rx \<Rightarrow>
                               (let s2 = s1\<lparr>return_X := rev rx\<rparr>
                                in if ys = [] then (Inl IndexError, s2)
                                   else
                                     (case arange (hd ys) (last ys) (return_slowness s) of
                                        Inl e \<Rightarrow> (Inl e, s2)
                                      | Inr ry \<Rightarrow>
                                          allocate_image (s2\<lparr>return_Y := rev ry\<rparr>)
                                            img_size))))))))"

text \<open>
  \<^verbatim>\<open>set_meas_mode\<close>.  The last branch is the source's \<^verbatim>\<open>else\<close>: every string other
  than \<^verbatim>\<open>"quenching"\<close> and \<^verbatim>\<open>"isob"\<close> selects full-B.  The result of
  \<^verbatim>\<open>initialize_image\<close> is dropped, as in the source.
\<close>

definition set_meas_mode :: "magnetometer \<Rightarrow> string \<Rightarrow> unit outcome" where
  "set_meas_mode s mode =
     (let s0 = s\<lparr>meas_mode := mode\<rparr>
      in if mode = ''quenching'' then
           (let s1 = s0\<lparr>image_size := 5, scanline_size := 4, incr := 2\<rparr>
            in case initialize_image s1 (image_size s1) (scanline_size s1) of
                 (Inl e, s2) \<Rightarrow> (Inl e, s2) | (Inr _, s2) \<Rightarrow> (Inr (), s2))
         else if mode = ''isob'' then
           (let s1 = s0\<lparr>incr := 1, image_size := 7, scanline_size := 8, line_number := 2\<rparr>
            in case initialize_image s1 (image_size s1) (scanline_size s1) of
                 (Inl e, s2) \<Rightarrow> (Inl e, s2) | (Inr _, s2) \<Rightarrow> (Inr (), s2))
         else
           (let s1 = s0\<lparr>incr := 1, image_size := 8, scanline_size := 10\<rparr>
            in if odmr_mw_step s1 = 0 then (Inl ZeroDivisionError, s1)
               else
                 (let s2 = s1\<lparr>line_number :=
                             rint ((odmr_mw_stop s1 - odmr_mw_start s1) / odmr_mw_step s1) + 1\<rparr>
                  in if line_number s2 < 0 then (Inl ValueError, s2)
                     else
                       (case initialize_image s2 (image_size s2) (scanline_size s2) of
                          (Inl e, s3) \<Rightarrow> (Inl e, s3) | (Inr _, s3) \<Rightarrow> (Inr (), s3)))))"

section \<open>Storing one pixel\<close>

text \<open>
  Helpers for the numpy expressions of \<^verbatim>\<open>treat_data\<close>.  An acquisition result is
  \<open>None\<close> when \<^verbatim>\<open>scan_odmr_line\<close> returned nothing, and otherwise the list of the
  rows of a two-axis array; subscripting \<open>None\<close> raises \<^verbatim>\<open>TypeError\<close>, an index
  beyond an axis raises \<^verbatim>\<open>IndexError\<close>, shapes that do not broadcast raise
  \<^verbatim>\<open>ValueError\<close>.  \<^verbatim>\<open>np.mean\<close> of an empty row is \<^verbatim>\<open>nan\<close>, which no real
  number stands for: the model stops there with \<open>NaNValue\<close>.  \<^verbatim>\<open>np.argmin\<close> is the
  first index of the least element.
\<close>

definition attempt :: "py_error + 'a \<Rightarrow> magnetometer \<Rightarrow> ('a \<Rightarrow> 'b outcome) \<Rightarrow> 'b outcome" where
  "attempt v s k = (case v of Inl e \<Rightarrow> (Inl e, s) | Inr x \<Rightarrow> k x)"

definition subscript :: "'a list option \<Rightarrow> nat \<Rightarrow> py_error + 'a" where
  "subscript x i =
     (case x of None \<Rightarrow> Inl TypeError
      | Some xs \<Rightarrow> if i < length xs then Inr (xs ! i) else Inl IndexError)"

definition item :: "'a list \<Rightarrow> nat \<Rightarrow> py_error + 'a" where
  "item xs i = (if i < length xs then Inr (xs ! i) else Inl IndexError)"

definition column :: "real list list option \<Rightarrow> nat \<Rightarrow> py_error + real list" where
  "column x j =
     (case x of None \<Rightarrow> Inl TypeError
      | Some d \<Rightarrow> if d = [] \<or> (\<exists>row \<in> set d. length row \<le> j) then Inl IndexError
                  else Inr (map (\<lambda>row. row ! j) d))"

definition np_mean :: "real list \<Rightarrow> py_error + real" where
  "np_mean xs = (if xs = [] then Inl NaNValue else Inr (sum_list xs / of_nat (length xs)))"

definition np_argmin :: "real list \<Rightarrow> py_error + nat" where
  "np_argmin xs =
     (if xs = [] then Inl ValueError
      else Inr (length (takeWhile (\<lambda>x. x \<noteq> Min (set xs)) xs)))"

definition bc2 :: "(real \<Rightarrow> real \<Rightarrow> real) \<Rightarrow> real list \<Rightarrow> real list \<Rightarrow> py_error + real list" where
  "bc2 f xs ys =
     (if length xs = length ys then Inr (map2 f xs ys)
      else if length xs = 1 then Inr (map (f (hd xs)) ys)
      else if length ys = 1 then Inr (map (\<lambda>x. f x (hd ys)) xs)
      else Inl ValueError)"

definition bc_to :: "nat \<Rightarrow> real list \<Rightarrow> py_error + real list" where
  "bc_to m vs =
     (if length vs = m then Inr vs
      else if length vs = 1 then Inr (replicate m (hd vs))
      else Inl ValueError)"

definition nrows :: "'a list list \<Rightarrow> nat" where
  "nrows a = length a"

definition ncols :: "'a list list \<Rightarrow> nat" where
  "ncols a = (case a of [] \<Rightarrow> 0 | r # _ \<Rightarrow> length r)"

definition nchans :: "image \<Rightarrow> nat" where
  "nchans img = (case img of [] \<Rightarrow> 0 | r # _ \<Rightarrow> (case r of [] \<Rightarrow> 0 | c # _ \<Rightarrow> length c))"

definition put :: "image \<Rightarrow> nat \<Rightarrow> nat \<Rightarrow> nat \<Rightarrow> real \<Rightarrow> image" where
  "put img r c k v = img[r := (img ! r)[c := (img ! r ! c)[k := v]]]"

definition put_cells :: "image \<Rightarrow> (nat \<times> nat) list \<Rightarrow> nat \<Rightarrow> real list \<Rightarrow> image" where
  "put_cells img cells k vs = fold (\<lambda>(rc, v) im. put im (fst rc) (snd rc) k v) (zip cells vs) img"

text \<open>\<^verbatim>\<open>img[r, c, k]\<close> read and written, and \<^verbatim>\<open>topo_corr[r, c]\<close> read.\<close>

definition get_cell :: "image \<Rightarrow> nat \<Rightarrow> nat \<Rightarrow> nat \<Rightarrow> py_error + real" where
  "get_cell img r c k =
     (if img = [] then Inl AttributeError
      else if r < nrows img \<and> c < ncols img \<and> k < nchans img then Inr (img ! r ! c ! k)
      else Inl IndexError)"

definition set_cell :: "image \<Rightarrow> nat \<Rightarrow> nat \<Rightarrow> nat \<Rightarrow> real \<Rightarrow> py_error + image" where
  "set_cell img r c k v =
     (if img = [] then Inl AttributeError
      else if r < nrows img \<and> c < ncols img \<and> k < nchans img then Inr (put img r c k v)
      else Inl IndexError)"

definition get2 :: "real list list \<Rightarrow> nat \<Rightarrow> nat \<Rightarrow> py_error + real" where
  "get2 a r c = (if r < nrows a \<and> c < ncols a then Inr (a ! r ! c) else Inl IndexError)"

text \<open>
  The two-pixel slices of the quenching branch: \<^verbatim>\<open>[ly, lx:lx+2, k]\<close> for a horizontal
  raster and \<^verbatim>\<open>[ly:ly+2, lx, k]\<close> for a vertical one.  A slice is cut at the edge of
  the array; the integer indices are checked.
\<close>

definition hslice_cells :: "'a list list \<Rightarrow> nat \<Rightarrow> nat \<Rightarrow> (nat \<times> nat) list" where
  "hslice_cells a ly lx = map (\<lambda>c. (ly, c)) [lx..<min (lx + 2) (ncols a)]"

definition vslice_cells :: "'a list list \<Rightarrow> nat \<Rightarrow> nat \<Rightarrow> (nat \<times> nat) list" where
  "vslice_cells a ly lx = map (\<lambda>r. (r, lx)) [ly..<min (ly + 2) (nrows a)]"

definition slice_cells :: "bool \<Rightarrow> 'a list list \<Rightarrow> nat \<Rightarrow> nat \<Rightarrow> (nat \<times> nat) list" where
  "slice_cells horizontal a ly lx =
     (if horizontal then hslice_cells a ly lx else vslice_cells a ly lx)"

definition slice_index_ok :: "bool \<Rightarrow> 'a list list \<Rightarrow> nat \<Rightarrow> nat \<Rightarrow> bool" where
  "slice_index_ok horizontal a ly lx = (if horizontal then ly < nrows a else lx < ncols a)"

definition get_slice :: "bool \<Rightarrow> image \<Rightarrow> nat \<Rightarrow> nat \<Rightarrow> nat \<Rightarrow> py_error + real list" where
  "get_slice horizontal img ly lx k =
     (if img = [] then Inl AttributeError
      else if slice_index_ok horizontal img ly lx \<and> k < nchans img
      then Inr (map (\<lambda>rc. img ! fst rc ! snd rc ! k) (slice_cells horizontal img ly lx))
      else Inl IndexError)"

definition set_slice :: "bool \<Rightarrow> image \<Rightarrow> nat \<Rightarrow> nat \<Rightarrow> nat \<Rightarrow> real list \<Rightarrow> py_error + image" where
  "set_slice horizontal img ly lx k vs =
     (if img = [] then Inl AttributeError
      else if slice_index_ok horizontal img ly lx \<and> k < nchans img
      then (case bc_to (length (slice_cells horizontal img ly lx)) vs of
              Inl e \<Rightarrow> Inl e
            | Inr ws \<Rightarrow> Inr (put_cells img (slice_cells horizontal img ly lx) k ws))
      else Inl IndexError)"

definition get_slice2 :: "bool \<Rightarrow> real list list \<Rightarrow> nat \<Rightarrow> nat \<Rightarrow> py_error + real list" where
  "get_slice2 horizontal a ly lx =
     (if slice_index_ok horizontal a ly lx
      then Inr (map (\<lambda>rc. a ! fst rc ! snd rc) (slice_cells horizontal a ly lx))
      else Inl IndexError)"

definition set_chan_slice ::
  "image \<Rightarrow> nat \<Rightarrow> nat \<Rightarrow> nat \<Rightarrow> nat \<Rightarrow> real list \<Rightarrow> py_error + image" where
  "set_chan_slice img r c k0 k1 vs =
     (if img = [] then Inl AttributeError
      else if r < nrows img \<and> c < ncols img
      then (case bc_to (length [k0..<min k1 (nchans img)]) vs of
              Inl e \<Rightarrow> Inl e
            | Inr ws \<Rightarrow>
                Inr (fold (\<lambda>(k, v) im. put im r c k v) (zip [k0..<min k1 (nchans img)] ws) img))
      else Inl IndexError)"

text \<open>
  The quenching branch of \<^verbatim>\<open>treat_data\<close>: raw topography into channel 4, corrected
  topography added to channel 2, photoluminescence into channel 3, for the two pixels of
  the hardware call.  In \<^verbatim>\<open>a[i] += e\<close> Python reads \<^verbatim>\<open>a[i]\<close> before it evaluates
  \<^verbatim>\<open>e\<close>.
\<close>

definition treat_data_quenching :: "magnetometer \<Rightarrow> real list list option \<Rightarrow> unit outcome" where
  "treat_data_quenching s data =
     (let h = (scan_mode s = ''_hpix'');
          lx = fst (line_position s);
          ly = snd (line_position s)
      in attempt (column data 1) s (\<lambda>topo.
         let raw = map (\<lambda>t. z_scanner_range s - coeff_topo s * t) topo
         in attempt (set_slice h (pl_image s) ly lx 4 raw) s (\<lambda>img1.
         let s1 = s\<lparr>pl_image := img1\<rparr>
         in attempt (get_slice h img1 ly lx 2) s1 (\<lambda>cur.
            attempt (get_slice2 h (topo_corr s1) ly lx) s1 (\<lambda>tc.
            attempt (bc2 (\<lambda>a b. a - b) raw tc) s1 (\<lambda>d.
            attempt (bc_to (length cur) d) s1 (\<lambda>d'.
            attempt (set_slice h img1 ly lx 2 (map2 (\<lambda>a b. a + b) cur d')) s1 (\<lambda>img2.
            let s2 = s1\<lparr>pl_image := img2\<rparr>
            in attempt (column data 0) s2 (\<lambda>pl.
               attempt (set_slice h img2 ly lx 3 pl) s2 (\<lambda>img3.
               (Inr (), s2\<lparr>pl_image := img3\<rparr>)))))))))))"

text \<open>
  The iso-B branch: raw topography into channel 6, corrected topography added to channel
  2, the difference of the two counts into channel 3 and the two counts into channels 4
  and 5.
\<close>

definition treat_data_isob :: "magnetometer \<Rightarrow> real list list option \<Rightarrow> unit outcome" where
  "treat_data_isob s data =
     (let lx = fst (line_position s);
          ly = snd (line_position s)
      in attempt (subscript data 1) s (\<lambda>row1.
         attempt (np_mean row1) s (\<lambda>m.
         let raw = z_scanner_range s - coeff_topo s * m
         in attempt (set_cell (pl_image s) ly lx 6 raw) s (\<lambda>img1.
         let s1 = s\<lparr>pl_image := img1\<rparr>
         in attempt (get_cell img1 ly lx 2) s1 (\<lambda>cur.
            attempt (get2 (topo_corr s1) ly lx) s1 (\<lambda>tc.
            attempt (set_cell img1 ly lx 2 (cur + (raw - tc))) s1 (\<lambda>img2.
            let s2 = s1\<lparr>pl_image := img2\<rparr>
            in attempt (subscript data 0) s2 (\<lambda>row0.
               attempt (item row0 0) s2 (\<lambda>a.
               attempt (item row0 1) s2 (\<lambda>b.
               attempt (set_cell img2 ly lx 3 (a - b)) s2 (\<lambda>img3.
               let s3 = s2\<lparr>pl_image := img3\<rparr>
               in attempt (set_chan_slice img3 ly lx 4 6 row0) s3 (\<lambda>img4.
                  (Inr (), s3\<lparr>pl_image := img4\<rparr>)))))))))))))"

text \<open>
  Lines 1201 to 1211 of \<^verbatim>\<open>treat_data\<close>: the dip found by \<^verbatim>\<open>argmin\<close> is kept when
  it is strictly between the two bounds, and is otherwise chosen again among the swept
  frequencies between the bounds, both included.
\<close>

definition select_minimum ::
  "real list \<Rightarrow> real list \<Rightarrow> real \<Rightarrow> real \<Rightarrow> real \<Rightarrow> py_error + real" where
  "select_minimum fl d0 freq_min minfield maxfield =
     (if freq_min \<le> minfield \<or> freq_min \<ge> maxfield then
        (let indices = filter (\<lambda>i. fl ! i \<le> maxfield \<and> fl ! i \<ge> minfield) [0..<length fl]
         in if \<exists>i \<in> set indices. length d0 \<le> i then Inl IndexError
            else (case np_argmin (map (\<lambda>i. d0 ! i) indices) of
                    Inl e \<Rightarrow> Inl e
                  | Inr j \<Rightarrow> Inr (fl ! (indices ! j))))
      else Inr freq_min)"

text \<open>
  Lines 1213 to 1228: the window is moved around the selected dip, the step of the next
  sweep is chosen and the number of points recomputed.
\<close>

definition track_window :: "magnetometer \<Rightarrow> real list \<Rightarrow> real \<Rightarrow> unit outcome" where
  "track_window s fl freq_min =
     (let half = (last fl - hd fl) / 2;
          s1 = s\<lparr>mw_start := freq_min - half, mw_stop := freq_min + half\<rparr>;
          s2 = s1\<lparr>odmr_mw_start := mw_start s1, odmr_mw_stop := mw_stop s1\<rparr>;
          s3 = s2\<lparr>odmr_mw_step :=
                   (if resonance_frequency s2 - freq_min < threshold s2
                    then mw_step s2 else mw_step_hf s2)\<rparr>
      in if odmr_mw_step s3 = 0 then (Inl ZeroDivisionError, s3)
         else
           (let s4 = s3\<lparr>line_number :=
                       rint ((odmr_mw_stop s3 - odmr_mw_start s3) / odmr_mw_step s3) + 1\<rparr>
            in if line_number s4 < 0 then (Inl ValueError, s4) else (Inr (), s4)))"

text \<open>
  Lines 1162 to 1166: the list of the frequencies of the sweep that has just been made,
  rebuilt from the stored window and step.
\<close>

definition sweep_frequencies :: "magnetometer \<Rightarrow> py_error + real list" where
  "sweep_frequencies s =
     (if mw_step s = 0 then Inl ZeroDivisionError
      else
        (let num_steps = rint ((mw_stop s - mw_start s) / mw_step s);
             end_freq = mw_start s + of_int num_steps * mw_step s
         in linspace (mw_start s) end_freq (num_steps + 1)))"

text \<open>
  The full-B branch.  The spectrum written to the temporary file is not modelled.
\<close>

definition treat_data_fullb ::
  "magnetometer \<Rightarrow> real list list option \<Rightarrow> real list list option \<Rightarrow> unit outcome" where
  "treat_data_fullb s data data_isob =
     (let lx = fst (line_position s);
          ly = snd (line_position s)
      in attempt (sweep_frequencies s) s (\<lambda>fl.
              let s1 = s\<lparr>freq_list := fl, esr_line := map (\<lambda>f. (f, 0)) fl\<rparr>
              in attempt (subscript data 0) s1 (\<lambda>d0.
                 attempt (bc_to (length fl) d0) s1 (\<lambda>col.
                 let s2 = s1\<lparr>esr_line := zip fl col\<rparr>
                 in attempt (np_argmin d0) s2 (\<lambda>indmin.
                    attempt (subscript data 1) s2 (\<lambda>row1.
                    attempt (np_mean row1) s2 (\<lambda>m.
                    let raw = z_scanner_range s2 - coeff_topo s2 * m
                    in attempt (set_cell (pl_image s2) ly lx 7 raw) s2 (\<lambda>img1.
                    let s3 = s2\<lparr>pl_image := img1\<rparr>
                    in attempt (get_cell img1 ly lx 2) s3 (\<lambda>cur.
                       attempt (get2 (topo_corr s3) ly lx) s3 (\<lambda>tc.
                       attempt (set_cell img1 ly lx 2 (cur + (raw - tc))) s3 (\<lambda>img2.
                       let s4 = s3\<lparr>pl_image := img2\<rparr>
                       in attempt (item fl indmin) s4 (\<lambda>f0.
                          attempt (set_cell img2 ly lx 3 f0) s4 (\<lambda>img3.
                          let s5 = s4\<lparr>pl_image := img3\<rparr>
                          in attempt (subscript data_isob 0) s5 (\<lambda>i0.
                             attempt (item i0 0) s5 (\<lambda>a.
                             attempt (item i0 1) s5 (\<lambda>b.
                             attempt (set_cell img3 ly lx 4 (a - b)) s5 (\<lambda>img4.
                             let s6 = s5\<lparr>pl_image := img4\<rparr>
                             in attempt (set_cell img4 ly lx 5 a) s6 (\<lambda>img5.
                             let s7 = s6\<lparr>pl_image := img5\<rparr>
                             in attempt (set_cell img5 ly lx 6 b) s7 (\<lambda>img6.
                             let s8 = s7\<lparr>pl_image := img6\<rparr>
                             in attempt (select_minimum fl d0 f0 (min_fullb s8) (max_fullb s8)) s8
                                  (\<lambda>freq_min. track_window s8 fl freq_min))))))))))))))))))))"

text \<open>\<^verbatim>\<open>treat_data\<close>: the branch of the mode, then the signal that lets the scan go on.\<close>

definition treat_data ::
  "magnetometer \<Rightarrow> real list list option \<Rightarrow> real list list option \<Rightarrow> unit outcome" where
  "treat_data s data data_isob =
     (case (if meas_mode s = ''quenching'' then treat_data_quenching s data
            else if meas_mode s = ''isob'' then treat_data_isob s data
            else treat_data_fullb s data data_isob) of
        (Inl e, s') \<Rightarrow> (Inl e, s')
      | (Inr _, s') \<Rightarrow> (Inr (), emit SigFinishedDataTreatment s'))"

section \<open>A concrete controller state\<close>

text \<open>
  The state \<^verbatim>\<open>on_activate\<close> leaves with the default status variables, a scanner
  range of 30 by 30 micrometres and a resolution of 100 by 100, before any image is
  allocated.
\<close>

definition init_state :: magnetometer where
  "init_state =
     \<lparr> locked = False, stopRequested = False,
       meas_mode = ''quenching'', scan_mode = ''_hpix'',
       incr = 2, image_size = 5, scanline_size = 4, line_number = 2,
       resolution = (100, 100),
       range = ([0, 3 / 100000], [0, 3 / 100000]),
       center_position = (3 / 200000, 3 / 200000),
       return_slowness = 5 / 100000000, clock_frequency = 10, duration = 0,
       z_scanner_range = 3 / 1000000, coeff_topo = 3 / 4000000,
       pl_image = [], topo_corr = [], grid_X = [], grid_Y = [],
       return_X = [], return_Y = [], current_position = (0, 0),
       line_position = (0, 0),
       mw_start = 2870000000, mw_stop = 2900000000, mw_step = 30000000,
       mw_step_hf = 60000000, min_fullb = 2800000000, max_fullb = 2940000000,
       threshold = 2920000000, resonance_frequency = 2870000000,
       number_sweeps = 1, freq1 = 2870000000, freq2 = 2900000000,
       odmr_mw_start = 2870000000, odmr_mw_stop = 2900000000, odmr_mw_step = 30000000,
       freq_list = [], esr_line = [], hw_calls = 0, emitted = [] \<rparr>"

text \<open>
  The same state at a resolution of 2 by 2 and a retrace step of 10 micrometres, small
  enough to run the allocation and the storage of a pixel by rewriting.
\<close>

definition small_state :: magnetometer where
  "small_state = init_state\<lparr>resolution := (2, 2), return_slowness := 1 / 100000\<rparr>"

section \<open>Predicates used in the statements\<close>

text \<open>
  The image of \<open>s'\<close> has \<open>rows\<close> rows of \<open>cols\<close> pixels of \<open>n\<close> channels; channel 0 of
  a pixel holds the x position of its column, channel 1 the y position of its row, and
  every other channel is zero.
\<close>

definition image_ok :: "magnetometer \<Rightarrow> nat \<Rightarrow> nat \<Rightarrow> nat \<Rightarrow> bool" where
  "image_ok s' rows cols n \<longleftrightarrow>
     length (pl_image s') = rows
     \<and> (\<forall>r < rows.
          length (pl_image s' ! r) = cols
          \<and> (\<forall>c < cols.
                length (pl_image s' ! r ! c) = n
                \<and> pl_image s' ! r ! c ! 0 = grid_X s' ! c
                \<and> pl_image s' ! r ! c ! 1 = grid_Y s' ! r
                \<and> (\<forall>k. 2 \<le> k \<and> k < n \<longrightarrow> pl_image s' ! r ! c ! k = 0)))"

text \<open>
  A rectangular image of \<open>rows\<close> by \<open>cols\<close> pixels of \<open>n\<close> channels, and a rectangular
  plane of \<open>rows\<close> by \<open>cols\<close> values.
\<close>

definition shaped :: "image \<Rightarrow> nat \<Rightarrow> nat \<Rightarrow> nat \<Rightarrow> bool" where
  "shaped img rows cols n \<longleftrightarrow>
     length img = rows \<and> (\<forall>r \<in> set img. length r = cols \<and> (\<forall>c \<in> set r. length c = n))"

definition shaped2 :: "real list list \<Rightarrow> nat \<Rightarrow> nat \<Rightarrow> bool" where
  "shaped2 a rows cols \<longleftrightarrow> length a = rows \<and> (\<forall>r \<in> set a. length r = cols)"

text \<open>
  An iso-B scan in progress on a 2 by 2 image, the cursor on column 1 of row 0.
\<close>

definition isob_state :: magnetometer where
  "isob_state = small_state
     \<lparr> locked := True, meas_mode := ''isob'', incr := 1, image_size := 7, scanline_size := 8,
       pl_image := [[[0, 0, 4, 2, 7, 5, 1], [3 / 100000, 0, 0, 0, 0, 0, 0]],
                    [[0, 3 / 100000, 0, 0, 0, 0, 0], [3 / 100000, 3 / 100000, 0, 0, 0, 0, 0]]],
       topo_corr := [[0, 0], [0, 0]],
       grid_X := [0, 3 / 100000], grid_Y := [0, 3 / 100000],
       line_position := (1, 0) \<rparr>"

text \<open>
  A full-B pixel that \<^verbatim>\<open>treat_data\<close> can store: the mode is neither quenching nor
  iso-B, \<open>fl\<close> is the list of the swept frequencies, the cursor is inside an image of at
  least 8 channels and inside the correction plane, the sweep \<open>d\<close> has one signal per
  frequency and a non-empty topography row, \<open>indmin\<close> is the index of its dip, the
  two-frequency read \<open>di\<close> has two counts, a swept frequency lies between the two bounds
  whenever the dip does not, and either step gives the next sweep a number of points.
\<close>

definition fullb_pixel ::
  "magnetometer \<Rightarrow> real list list \<Rightarrow> real list list \<Rightarrow> real list \<Rightarrow> nat \<Rightarrow> bool" where
  "fullb_pixel s d di fl indmin \<longleftrightarrow>
     meas_mode s \<noteq> ''quenching'' \<and> meas_mode s \<noteq> ''isob''
     \<and> sweep_frequencies s = Inr fl
     \<and> (\<exists>rows cols n. shaped (pl_image s) rows cols n \<and> 8 \<le> n
            \<and> snd (line_position s) < rows \<and> fst (line_position s) < cols)
     \<and> (\<exists>rows cols. shaped2 (topo_corr s) rows cols
            \<and> snd (line_position s) < rows \<and> fst (line_position s) < cols)
     \<and> 2 \<le> length d \<and> length (d ! 0) = length fl \<and> d ! 1 \<noteq> []
     \<and> np_argmin (d ! 0) = Inr indmin
     \<and> di \<noteq> [] \<and> 2 \<le> length (di ! 0)
     \<and> (\<not> (min_fullb s \<le> fl ! indmin \<and> fl ! indmin \<le> max_fullb s)
          \<longrightarrow> (\<exists>i < length fl. min_fullb s \<le> fl ! i \<and> fl ! i \<le> max_fullb s))
     \<and> mw_step s \<noteq> 0 \<and> mw_step_hf s \<noteq> 0
     \<and> 0 \<le> rint ((last fl - hd fl) / mw_step s) + 1
     \<and> 0 \<le> rint ((last fl - hd fl) / mw_step_hf s) + 1"

text \<open>
  A full-B scan in progress on a 2 by 2 image, sweeping 100, 110, 120 with a fine step
  of 10 and a coarse step of 20, far above a reference frequency of 10.
\<close>

definition fullb_state :: magnetometer where
  "fullb_state = small_state
     \<lparr> locked := True, meas_mode := ''fullb'', incr := 1, image_size := 8, scanline_size := 10,
       line_number := 3,
       pl_image := [[[0, 0, 4, 2, 7, 5, 1, 6], [3 / 100000, 0, 0, 0, 0, 0, 0, 0]],
                    [[0, 3 / 100000, 0, 0, 0, 0, 0, 0],
                     [3 / 100000, 3 / 100000, 0, 0, 0, 0, 0, 0]]],
       topo_corr := [[0, 0], [0, 0]],
       grid_X := [0, 3 / 100000], grid_Y := [0, 3 / 100000],
       line_position := (1, 0),
       mw_start := 100, mw_stop := 120, mw_step := 10, mw_step_hf := 20,
       min_fullb := 0, max_fullb := 1000, threshold := 5, resonance_frequency := 10,
       freq1 := 100, freq2 := 120,
       odmr_mw_start := 100, odmr_mw_stop := 120, odmr_mw_step := 10 \<rparr>"

section \<open>Hardware ports\<close>

text \<open>
  What the logic asks of its collaborators, which are not part of this module: the
  counts of \<^verbatim>\<open>get_odmr_counts\<close> and of \<^verbatim>\<open>scan_line\<close>, by the number of the call
  and its argument, each either an array or an exception; whether
  \<^verbatim>\<open>_write_scanner_ao\<close> raises; the clamping functions of the microwave
  constraints; and the parameters \<^verbatim>\<open>leastsq\<close> fits to a topography.
\<close>

record hardware =
  odmr_counts :: "nat \<Rightarrow> int \<Rightarrow> py_error + real list list"
  line_scan :: "nat \<Rightarrow> real list list \<Rightarrow> py_error + real list list"
  write_ao_raises :: "nat \<Rightarrow> bool"
  frequency_in_range :: "real \<Rightarrow> real"
  list_step_in_range :: "real \<Rightarrow> real"
  leastsq :: "real list list \<Rightarrow> py_error + (real \<times> real \<times> real)"

definition called :: "magnetometer \<Rightarrow> magnetometer" where
  "called s = s\<lparr>hw_calls := Suc (hw_calls s)\<rparr>"

section \<open>Acquisition of one pixel\<close>

text \<open>
  \<^verbatim>\<open>new_counts += other\<close> on two-axis arrays: \<open>other\<close> is broadcast to the shape of
  \<open>new_counts\<close> or the statement raises.
\<close>

definition in_place_add :: "real list list \<Rightarrow> real list list \<Rightarrow> py_error + real list list" where
  "in_place_add acc other =
     (if (nrows other = nrows acc \<or> nrows other = 1) \<and> (ncols other = ncols acc \<or> ncols other = 1)
      then Inr (map (\<lambda>i. map (\<lambda>j. acc ! i ! j
                      + other ! (if nrows other = 1 then 0 else i)
                              ! (if ncols other = 1 then 0 else j))
                    [0..<ncols acc]) [0..<nrows acc])
      else Inl ValueError)"

text \<open>The loop over the further sweeps of \<^verbatim>\<open>scan_odmr_line\<close>.\<close>

fun accumulate ::
  "hardware \<Rightarrow> nat \<Rightarrow> real list list \<Rightarrow> magnetometer
     \<Rightarrow> (py_error + real list list) \<times> magnetometer" where
  "accumulate hw 0 acc s = (Inr acc, s)"
| "accumulate hw (Suc k) acc s =
     (case odmr_counts hw (hw_calls s) (line_number s) of
        Inl e \<Rightarrow> (Inl e, called s)
      | Inr c \<Rightarrow>
          (case in_place_add acc c of
             Inl e \<Rightarrow> (Inl e, called s)
           | Inr acc' \<Rightarrow> accumulate hw k acc' (called s)))"

text \<open>
  \<^verbatim>\<open>scan_odmr_line\<close>.  The result is \<open>None\<close> on the bare \<^verbatim>\<open>return\<close> that follows
  the sentinel test; the test reads the sum of the sweeps.  A division of the counts by
  a zero number of sweeps gives \<^verbatim>\<open>inf\<close> and \<^verbatim>\<open>nan\<close>, where the model stops.
\<close>

definition scan_odmr_line ::
  "hardware \<Rightarrow> magnetometer \<Rightarrow> (py_error + real list list option) \<times> magnetometer" where
  "scan_odmr_line hw s =
     (case odmr_counts hw (hw_calls s) (line_number s) of
        Inl e \<Rightarrow> (Inl e, called s)
      | Inr c0 \<Rightarrow>
          (case accumulate hw (if number_sweeps s > 1 then nat (number_sweeps s - 1) else 0)
                  c0 (called s) of
             (Inl e, s1) \<Rightarrow> (Inl e, s1)
           | (Inr new_counts, s1) \<Rightarrow>
               (case get2 new_counts 0 0 of
                  Inl e \<Rightarrow> (Inl e, s1)
                | Inr v \<Rightarrow>
                    if v = - 1 then (Inr None, s1\<lparr>stopRequested := True\<rparr>)
                    else if number_sweeps s1 = 0 then (Inl NaNValue, s1)
                    else (Inr (Some (map (map (\<lambda>x. x / of_int (number_sweeps s1))) new_counts)),
                          s1))))"

text \<open>
  A call with positional arguments only raises \<^verbatim>\<open>TypeError\<close> unless there are as
  many arguments as parameters without a default.
\<close>

definition positional_call :: "nat \<Rightarrow> 'a list \<Rightarrow> py_error + 'a list" where
  "positional_call n_params args = (if length args = n_params then Inr args else Inl TypeError)"

text \<open>
  \<^verbatim>\<open>set_sweep_parameters_fullb\<close>, with its eight parameters after \<^verbatim>\<open>self\<close>.
\<close>

definition set_sweep_parameters_fullb ::
  "hardware \<Rightarrow> magnetometer \<Rightarrow> real \<Rightarrow> real \<Rightarrow> real \<Rightarrow> real \<Rightarrow> real \<Rightarrow> real \<Rightarrow> int \<Rightarrow> real
     \<Rightarrow> unit outcome" where
  "set_sweep_parameters_fullb hw s start stop minb maxb step step_hf nsweeps thr =
     (let stop' = (if stop \<le> start then start else stop);
          start' = (if stop \<le> start then stop else start);
          s1 = s\<lparr>odmr_mw_stop := frequency_in_range hw stop'\<rparr>;
          s2 = s1\<lparr>odmr_mw_start := frequency_in_range hw start'\<rparr>;
          s3 = s2\<lparr>odmr_mw_step := frequency_in_range hw step\<rparr>;
          s4 = s3\<lparr>mw_start := odmr_mw_start s3, mw_step := odmr_mw_step s3,
                  mw_stop := odmr_mw_stop s3\<rparr>
      in if odmr_mw_step s4 = 0 then (Inl ZeroDivisionError, s4)
         else
           (let s5 = s4\<lparr>line_number :=
                       rint ((odmr_mw_stop s4 - odmr_mw_start s4) / odmr_mw_step s4) + 1\<rparr>;
                s6 = s5\<lparr>min_fullb := frequency_in_range hw minb,
                        max_fullb := frequency_in_range hw maxb,
                        threshold := frequency_in_range hw thr,
                        mw_step_hf := list_step_in_range hw step_hf,
                        number_sweeps := nsweeps\<rparr>
            in if line_number s6 < 0 then (Inl ValueError, s6)
               else
                 (Inr (),
                  emit (SigParamUpdated
                     [(''mw_start'', PNum (odmr_mw_start s6)),
                      (''mw_stop'', PNum (odmr_mw_stop s6)),
                      (''min_fullb'', PNum (min_fullb s6)),
                      (''max_fullb'', PNum (max_fullb s6)),
                      (''mw_step'', PNum (odmr_mw_step s6)),
                      (''mw_step_hf'', PNum (mw_step_hf s6)),
                      (''number_sweeps'', PInt (number_sweeps s6)),
                      (''threshold'', PNum (threshold s6))]) s6)))"

text \<open>
  Lines 1280 to 1291 of \<^verbatim>\<open>scan_pixel\<close>: the two-frequency read that follows the
  sweep, and the signal that hands both results to \<^verbatim>\<open>treat_data\<close>.
\<close>

definition fullb_isob_read ::
  "hardware \<Rightarrow> magnetometer \<Rightarrow> real list list option \<Rightarrow> unit outcome" where
  "fullb_isob_read hw s data =
     (let s1 = s\<lparr>line_number := 2\<rparr>;
          s2 = s1\<lparr>odmr_mw_stop := freq2 s1\<rparr>;
          s3 = s2\<lparr>odmr_mw_start := freq1 s2\<rparr>;
          s4 = s3\<lparr>odmr_mw_step := freq2 s3 - freq1 s3\<rparr>
      in case scan_odmr_line hw s4 of
           (Inl e, s5) \<Rightarrow> (Inl e, s5)
         | (Inr data_isob, s5) \<Rightarrow>
             (let s6 = s5\<lparr>odmr_mw_start := mw_start s5\<rparr>;
                  s7 = s6\<lparr>odmr_mw_step := mw_step s6\<rparr>;
                  s8 = s7\<lparr>odmr_mw_stop := mw_stop s7\<rparr>
              in (Inr (), emit (SigScanPixelOver data data_isob) s8)))"

text \<open>
  \<^verbatim>\<open>scan_pixel\<close>, the body of the worker thread.  In the full-B branch the call of
  \<^verbatim>\<open>set_sweep_parameters_fullb\<close> passes seven arguments to eight parameters; the
  continuation written under it is what the source says would follow.  The array
  \<^verbatim>\<open>np.zeros(1)\<close> handed over in the other modes is written \<open>[[0]]\<close>.
\<close>

definition scan_pixel :: "hardware \<Rightarrow> magnetometer \<Rightarrow> unit outcome" where
  "scan_pixel hw s =
     (let lx = fst (line_position s);
          ly = snd (line_position s)
      in if meas_mode s = ''quenching'' then
           (let h = (scan_mode s = ''_hpix'')
            in attempt (get_slice h (pl_image s) ly lx 0) s (\<lambda>lsx.
               attempt (get_slice h (pl_image s) ly lx 1) s (\<lambda>lsy.
               attempt (line_scan hw (hw_calls s) [lsx, lsy]) (called s) (\<lambda>data.
               (Inr (), emit (SigScanPixelOver (Some data) (Some [[0]])) (called s))))))
         else if meas_mode s = ''isob'' then
           (case scan_odmr_line hw s of
              (Inl e, s1) \<Rightarrow> (Inl e, s1)
            | (Inr data, s1) \<Rightarrow> (Inr (), emit (SigScanPixelOver data (Some [[0]])) s1))
         else
           (if odmr_mw_step s = 0 then (Inl ZeroDivisionError, s)
            else
              (let s1 = s\<lparr>line_number :=
                          rint ((odmr_mw_stop s - odmr_mw_start s) / odmr_mw_step s) + 1\<rparr>
               in case scan_odmr_line hw s1 of
                    (Inl e, s2) \<Rightarrow> (Inl e, s2)
                  | (Inr data, s2) \<Rightarrow>
                      attempt (subscript data 0) s2 (\<lambda>row0.
                        if length row0 = 2 then
                          attempt (positional_call 8
                                     [mw_start s2, mw_stop s2, min_fullb s2, max_fullb s2,
                                      mw_step s2, mw_step_hf s2, threshold s2]) s2 (\<lambda>args.
                            case set_sweep_parameters_fullb hw s2 (args ! 0) (args ! 1)
                                   (args ! 2) (args ! 3) (args ! 4) (args ! 5)
                                   \<lfloor>args ! 6\<rfloor> (args ! 7) of
                              (Inl e, s3) \<Rightarrow> (Inl e, s3)
                            | (Inr _, s3) \<Rightarrow>
                                (case scan_odmr_line hw s3 of
                                   (Inl e, s4) \<Rightarrow> (Inl e, s4)
                                 | (Inr data', s4) \<Rightarrow> fullb_isob_read hw s4 data'))
                        else fullb_isob_read hw s2 data))))"

section \<open>Stopping, cursor advance and retrace\<close>

text \<open>
  \<^verbatim>\<open>shift_indices\<close>: an index that ran one past its axis is taken back, and the
  current position is read from the image at the cursor.
\<close>

definition shift_indices :: "magnetometer \<Rightarrow> unit outcome" where
  "shift_indices s =
     (if pl_image s = [] then (Inl AttributeError, s)
      else
        (let s1 = (if snd (line_position s) = nrows (pl_image s)
                   then s\<lparr>line_position := (fst (line_position s), snd (line_position s) - 1)\<rparr>
                   else s);
             s2 = (if fst (line_position s1) = ncols (pl_image s1)
                   then s1\<lparr>line_position := (fst (line_position s1) - 1, snd (line_position s1))\<rparr>
                   else s1);
             lx = fst (line_position s2);
             ly = snd (line_position s2)
         in attempt (get_cell (pl_image s2) ly lx 0) s2 (\<lambda>x.
            let s3 = s2\<lparr>current_position := (x, snd (current_position s2))\<rparr>
            in attempt (get_cell (pl_image s3) ly lx 1) s3 (\<lambda>y.
               (Inr (), s3\<lparr>current_position := (fst (current_position s3), y)\<rparr>)))))"

text \<open>\<^verbatim>\<open>stop_scanning(end)\<close>.\<close>

definition stop_scanning :: "magnetometer \<Rightarrow> bool \<Rightarrow> unit outcome" where
  "stop_scanning s final =
     (let s1 = (if locked s then s\<lparr>stopRequested := True\<rparr> else s)
      in case shift_indices s1 of
           (Inl e, s2) \<Rightarrow> (Inl e, s2)
         | (Inr _, s2) \<Rightarrow> (Inr (), emit (SigStopScan final) s2))"

text \<open>
  \<^verbatim>\<open>kill_scanner\<close>: the module is unlocked; closing the scanner, its clock, the
  microwave and the counter touches no attribute of the logic.
\<close>

definition kill_scanner :: "magnetometer \<Rightarrow> magnetometer" where
  "kill_scanner s = s\<lparr>locked := False\<rparr>"

text \<open>Python's index into an axis of length \<open>n\<close>: a negative index counts from the end.\<close>

definition py_index :: "nat \<Rightarrow> int \<Rightarrow> py_error + nat" where
  "py_index n i =
     (if 0 \<le> i \<and> i < int n then Inr (nat i)
      else if - int n \<le> i \<and> i < 0 then Inr (nat (int n + i))
      else Inl IndexError)"

definition pad_to :: "nat \<Rightarrow> real list \<Rightarrow> real list" where
  "pad_to n xs = xs @ replicate (n - length xs) (last xs)"

text \<open>
  \<^verbatim>\<open>return_h\<close> and \<^verbatim>\<open>return_v\<close>: the retrace path is built and scanned; the
  counts are dropped by the caller.  \<^verbatim>\<open>lsx[-1]\<close> raises on an empty retrace array.
  The second padding of \<^verbatim>\<open>return_v\<close> takes its fill value from \<^verbatim>\<open>lsx\<close>, as the
  source does.
\<close>

definition return_h :: "hardware \<Rightarrow> magnetometer \<Rightarrow> unit outcome" where
  "return_h hw s =
     (let lx = fst (line_position s); ly = snd (line_position s); img = pl_image s
      in if img = [] then (Inl AttributeError, s)
         else
           attempt (py_index (ncols img) (int lx - 1)) s (\<lambda>c.
           attempt (get_cell img ly c 1) s (\<lambda>y_from.
           attempt (get_cell img ly 0 1) s (\<lambda>y_to.
           attempt (linspace y_from y_to (int (length (return_X s)))) s (\<lambda>lsy.
           if return_X s = [] then (Inl IndexError, s)
           else
             (let n = max (length (return_X s)) (length lsy);
                  path = [pad_to n (return_X s), pad_to n lsy]
              in attempt (line_scan hw (hw_calls s) path) (called s)
                   (\<lambda>counts. (Inr (), called s))))))))"

definition return_v :: "hardware \<Rightarrow> magnetometer \<Rightarrow> unit outcome" where
  "return_v hw s =
     (let lx = fst (line_position s); ly = snd (line_position s); img = pl_image s
      in if img = [] then (Inl AttributeError, s)
         else
           attempt (py_index (nrows img) (int ly - 1)) s (\<lambda>r.
           attempt (get_cell img r lx 0) s (\<lambda>x_from.
           attempt (get_cell img 0 lx 0) s (\<lambda>x_to.
           attempt (linspace x_from x_to (int (length (return_Y s)))) s (\<lambda>lsx.
           if lsx = [] then (Inl IndexError, s)
           else
             (let n = max (length lsx) (length (return_Y s));
                  path = [pad_to n lsx,
                          return_Y s @ replicate (n - length (return_Y s)) (last lsx)]
              in attempt (line_scan hw (hw_calls s) path) (called s)
                   (\<lambda>counts. (Inr (), called s))))))))"

text \<open>
  \<^verbatim>\<open>_hpix_end\<close> and \<^verbatim>\<open>_vpix_end\<close>, the bodies of the worker threads that follow the
  storage of a pixel.  The refresh of the display buffers is taken to need no more than
  the row (the column, for a vertical raster) of the cursor; the bare \<^verbatim>\<open>except\<close>
  stops the scan and asks for the next step.
\<close>

definition pixel_end_failed :: "magnetometer \<Rightarrow> int outcome" where
  "pixel_end_failed s =
     (case stop_scanning s False of
        (Inl e, s1) \<Rightarrow> (Inl e, s1)
      | (Inr _, s1) \<Rightarrow> (Inr 0, emit SigNextLine s1))"

definition hpix_end :: "hardware \<Rightarrow> magnetometer \<Rightarrow> int outcome" where
  "hpix_end hw s =
     (if pl_image s = [] \<or> \<not> snd (line_position s) < nrows (pl_image s)
      then pixel_end_failed s
      else
        (let s1 = emit SigPlotsUpdated s;
             s2 = s1\<lparr>line_position := (fst (line_position s1) + incr s1, snd (line_position s1))\<rparr>
         in if fst (line_position s2) \<ge> length (grid_X s2) then
              (let s3 = s2\<lparr>line_position := (0, snd (line_position s2))\<rparr>;
                   s4 = s3\<lparr>line_position := (fst (line_position s3), snd (line_position s3) + 1)\<rparr>
               in if snd (line_position s4) \<ge> length (grid_Y s4) then
                    (case stop_scanning s4 True of
                       (Inl e, s5) \<Rightarrow> pixel_end_failed s5
                     | (Inr _, s5) \<Rightarrow> (Inr 0, emit SigNextLine (s5\<lparr>line_position := (0, 0)\<rparr>)))
                  else
                    (case return_h hw s4 of
                       (Inl e, s5) \<Rightarrow> pixel_end_failed s5
                     | (Inr _, s5) \<Rightarrow> (Inr 0, emit SigNextLine s5)))
            else (Inr 0, emit SigNextLine s2)))"

definition vpix_end :: "hardware \<Rightarrow> magnetometer \<Rightarrow> int outcome" where
  "vpix_end hw s =
     (if pl_image s = [] \<or> \<not> fst (line_position s) < ncols (pl_image s)
      then pixel_end_failed s
      else
        (let s1 = emit SigPlotsUpdated s;
             s2 = s1\<lparr>line_position := (fst (line_position s1), snd (line_position s1) + incr s1)\<rparr>
         in if snd (line_position s2) \<ge> length (grid_Y s2) then
              (let s3 = s2\<lparr>line_position := (fst (line_position s2), 0)\<rparr>;
                   s4 = s3\<lparr>line_position := (fst (line_position s3) + 1, snd (line_position s3))\<rparr>
               in if fst (line_position s4) \<ge> length (grid_X s4) then
                    (case stop_scanning s4 True of
                       (Inl e, s5) \<Rightarrow> pixel_end_failed s5
                     | (Inr _, s5) \<Rightarrow> (Inr 0, emit SigNextLine (s5\<lparr>line_position := (0, 0)\<rparr>)))
                  else
                    (case return_v hw s4 of
                       (Inl e, s5) \<Rightarrow> pixel_end_failed s5
                     | (Inr _, s5) \<Rightarrow> (Inr 0, emit SigNextLine s5)))
            else (Inr 0, emit SigNextLine s2)))"

text \<open>
  \<^verbatim>\<open>move_after_scan_pixel\<close>, the slot of the signal that ends \<^verbatim>\<open>treat_data\<close>.
\<close>

definition move_after_scan_pixel :: "magnetometer \<Rightarrow> magnetometer" where
  "move_after_scan_pixel s =
     (if scan_mode s = ''_hpix'' then emit ThreadHpixEnd s else emit ThreadVpixEnd s)"

section \<open>One step of the scan\<close>

text \<open>
  \<^verbatim>\<open>reset_position\<close>.  It never raises: its own \<^verbatim>\<open>except\<close> turns every exception
  into the result \<open>-1\<close>.  Away from the first pixel it does nothing.  On the first pixel
  it scans a line from the current position to the start; when the current position is
  already the start, no line has been built and the name \<^verbatim>\<open>start_line\<close> is unbound.
\<close>

definition axis_path :: "real \<Rightarrow> real \<Rightarrow> real \<Rightarrow> py_error + real list" where
  "axis_path cur target rs =
     (case arange (min cur target) (max cur target) rs of
        Inl e \<Rightarrow> Inl e
      | Inr ls \<Rightarrow>
          (let ls' = (if ls = [] then [target] else ls)
           in Inr (if hd ls' \<noteq> cur then rev ls' else ls')))"

definition reset_position :: "hardware \<Rightarrow> magnetometer \<Rightarrow> int \<times> magnetometer" where
  "reset_position hw s =
     (if pl_image s = [] then (- 1, s)
      else if line_position s = (0, 0) then
        (case get_cell (pl_image s) 0 0 0 of
           Inl e \<Rightarrow> (- 1, s)
         | Inr x0 \<Rightarrow>
            (case get_cell (pl_image s) 0 0 1 of
               Inl e \<Rightarrow> (- 1, s)
             | Inr y0 \<Rightarrow>
                if current_position s = (x0, y0) then (- 1, s)
                else
                  (case axis_path (fst (current_position s)) x0 (return_slowness s) of
                     Inl e \<Rightarrow> (- 1, s)
                   | Inr lsx \<Rightarrow>
                      (case axis_path (snd (current_position s)) y0 (return_slowness s) of
                         Inl e \<Rightarrow> (- 1, s)
                       | Inr lsy \<Rightarrow>
                          (let n = max (length lsx) (length lsy)
                           in case line_scan hw (hw_calls s) [pad_to n lsx, pad_to n lsy] of
                                Inl e \<Rightarrow> (- 1, called s)
                              | Inr counts \<Rightarrow>
                                  if \<exists>row \<in> set counts. - 1 \<in> set row
                                  then (0, emit SigNextLine
                                             ((called s)\<lparr>stopRequested := True\<rparr>))
                                  else (0, called s))))))
      else (0, s))"

text \<open>
  \<^verbatim>\<open>move_hpix\<close> and \<^verbatim>\<open>move_vpix\<close> have the same body: the position of the pixel
  under the cursor is read from the image, outside of the \<^verbatim>\<open>try\<close>, and written to
  the scanner, inside of it.
\<close>

definition move_pix :: "hardware \<Rightarrow> magnetometer \<Rightarrow> int outcome" where
  "move_pix hw s =
     (let lx = fst (line_position s); ly = snd (line_position s)
      in attempt (get_cell (pl_image s) ly lx 0) s (\<lambda>x.
         let s1 = s\<lparr>current_position := (x, snd (current_position s))\<rparr>
         in attempt (get_cell (pl_image s1) ly lx 1) s1 (\<lambda>y.
            let s2 = s1\<lparr>current_position := (fst (current_position s1), y)\<rparr>
            in if write_ao_raises hw (hw_calls s2) then (Inr (- 1), called s2)
               else (Inr 0, called s2))))"

text \<open>
  \<^verbatim>\<open>_scan_line\<close>, the slot of \<^verbatim>\<open>sigNextLine\<close>.  On a stop request it tears the scan
  down and unlocks the module.  Otherwise it moves to the pixel and starts the worker
  thread on \<^verbatim>\<open>scan_pixel\<close>; \<^verbatim>\<open>_hpix\<close> and \<^verbatim>\<open>_vpix\<close> return 0, never
  \<^verbatim>\<open>None\<close>, and any other value of \<^verbatim>\<open>scan_mode\<close> names no method.  The handler of
  the \<^verbatim>\<open>try\<close> stops the scan and asks for the next step.
\<close>

definition scan_line_failed :: "magnetometer \<Rightarrow> int outcome" where
  "scan_line_failed s =
     (case stop_scanning s False of
        (Inl e, s1) \<Rightarrow> (Inl e, s1)
      | (Inr _, s1) \<Rightarrow> (Inr (- 1), emit SigNextLine s1))"

definition scan_line_move :: "hardware \<Rightarrow> magnetometer \<Rightarrow> int outcome" where
  "scan_line_move hw s =
     (case move_pix hw s of
        (Inl e, s1) \<Rightarrow> scan_line_failed s1
      | (Inr r, s1) \<Rightarrow>
          if r < 0 then (Inr (- 1), s1)
          else if scan_mode s1 = ''_hpix'' \<or> scan_mode s1 = ''_vpix''
          then (Inr 0, emit ThreadScanPixel s1)
          else scan_line_failed s1)"

definition scan_line_slot :: "hardware \<Rightarrow> magnetometer \<Rightarrow> int outcome" where
  "scan_line_slot hw s =
     (let s0 = emit SigUpdateRemTime s
      in if stopRequested s0 then
           (Inr 0, emit SigPlotsUpdated ((kill_scanner s0)\<lparr>stopRequested := False\<rparr>))
         else
           (case reset_position hw s0 of
              (r, s1) \<Rightarrow>
                if r < 0 then
                  (case stop_scanning s1 False of
                     (Inl e, s2) \<Rightarrow> scan_line_failed s2
                   | (Inr _, s2) \<Rightarrow> scan_line_move hw (emit SigNextLine s2))
                else scan_line_move hw s1))"

section \<open>Topography correction\<close>

text \<open>
  \<^verbatim>\<open>plane_fit\<close>: the part of channel 2 above the cursor line (left of the cursor
  column, for a vertical raster) is handed to \<^verbatim>\<open>leastsq\<close>, and the fitted plane is
  evaluated on the grid of the resolution.  A slice that stops at \<open>-1\<close> drops the last
  element.
\<close>

definition take_until :: "int \<Rightarrow> 'a list \<Rightarrow> 'a list" where
  "take_until k xs = (if k < 0 then take (nat (int (length xs) + k)) xs else take (nat k) xs)"

definition plane_fit :: "hardware \<Rightarrow> magnetometer \<Rightarrow> py_error + real list list" where
  "plane_fit hw s =
     (if pl_image s = [] then Inl AttributeError
      else if nchans (pl_image s) \<le> 2 then Inl IndexError
      else
        (let topo = (if scan_mode s = ''_hpix''
                     then map (map (\<lambda>cell. cell ! 2))
                            (take_until (int (snd (line_position s)) - 1) (pl_image s))
                     else map (\<lambda>row. map (\<lambda>cell. cell ! 2)
                                 (take_until (int (fst (line_position s)) - 1) row))
                            (pl_image s))
         in case leastsq hw topo of
              Inl e \<Rightarrow> Inl e
            | Inr (a, b, c) \<Rightarrow>
                Inr (map (\<lambda>y. map (\<lambda>x. a * of_nat x + b * of_nat y + c)
                                 [0..<nat (fst (resolution s))])
                         [0..<nat (snd (resolution s))])))"

text \<open>
  \<^verbatim>\<open>correct_topo\<close>: the plane is subtracted from channel 2 of the whole image, then
  channel 2 is set to zero below the cursor line (right of the cursor column) and from
  the cursor down its column.  Only the name \<^verbatim>\<open>"plane_fit"\<close> is taken to name a
  correction function.
\<close>

definition map_cells :: "image \<Rightarrow> (nat \<Rightarrow> nat \<Rightarrow> real list \<Rightarrow> real list) \<Rightarrow> image" where
  "map_cells img f =
     map (\<lambda>r. map (\<lambda>c. f r c (img ! r ! c)) [0..<length (img ! r)]) [0..<length img]"

definition subtract_plane :: "image \<Rightarrow> real list list \<Rightarrow> py_error + image" where
  "subtract_plane img plane =
     (if img = [] then Inl AttributeError
      else if nchans img \<le> 2 then Inl IndexError
      else if (nrows plane = nrows img \<or> nrows plane = 1)
              \<and> (ncols plane = ncols img \<or> ncols plane = 1)
      then Inr (map_cells img (\<lambda>r c cell.
                  cell[2 := cell ! 2 - plane ! (if nrows plane = 1 then 0 else r)
                                             ! (if ncols plane = 1 then 0 else c)]))
      else Inl ValueError)"

definition correct_topo :: "hardware \<Rightarrow> magnetometer \<Rightarrow> string \<Rightarrow> int outcome" where
  "correct_topo hw s corr_fc =
     (if corr_fc \<noteq> ''plane_fit'' then (Inl TypeError, s)
      else
        (let lx = fst (line_position s); ly = snd (line_position s)
         in attempt (plane_fit hw s) s (\<lambda>plane.
            let s1 = s\<lparr>topo_corr := plane\<rparr>
            in attempt (subtract_plane (pl_image s1) plane) s1 (\<lambda>img1.
               let s2 = s1\<lparr>pl_image := img1\<rparr>;
                   img2 = (if scan_mode s2 = ''_hpix''
                           then map_cells img1 (\<lambda>r c cell. if ly < r then cell[2 := 0] else cell)
                           else map_cells img1 (\<lambda>r c cell. if lx < c then cell[2 := 0] else cell));
                   s3 = s2\<lparr>pl_image := img2\<rparr>
               in if \<not> lx < ncols img2 then (Inl IndexError, s3)
                  else
                    (Inr 0,
                     emit SigPlotsUpdated
                       (s3\<lparr>pl_image :=
                              map_cells img2 (\<lambda>r c cell.
                                if ly \<le> r \<and> c = lx then cell[2 := 0] else cell)\<rparr>))))))"

section \<open>The chain of slots and worker threads\<close>

text \<open>
  The signals the logic connects to its own slots, and the starts of its worker
  threads; every other signal goes to the user interface.  A slot or thread that raises
  leaves the state it had reached and emits nothing more.  \<open>run\<close> takes the pending
  tasks in the order of their emission, at most \<open>n\<close> of them, and returns the tasks
  that are still pending with the state; the tasks of one scan come one at a time, so
  that the order the threads would take does not matter.
\<close>

definition handled :: "signal \<Rightarrow> bool" where
  "handled sg =
     (case sg of
        SigNextLine \<Rightarrow> True
      | SigScanPixelOver d di \<Rightarrow> True
      | SigFinishedDataTreatment \<Rightarrow> True
      | ThreadScanPixel \<Rightarrow> True
      | ThreadHpixEnd \<Rightarrow> True
      | ThreadVpixEnd \<Rightarrow> True
      | _ \<Rightarrow> False)"

definition dispatch :: "hardware \<Rightarrow> signal \<Rightarrow> magnetometer \<Rightarrow> magnetometer" where
  "dispatch hw sg s =
     (case sg of
        SigNextLine \<Rightarrow> snd (scan_line_slot hw s)
      | ThreadScanPixel \<Rightarrow> snd (scan_pixel hw s)
      | SigScanPixelOver d di \<Rightarrow> snd (treat_data s d di)
      | SigFinishedDataTreatment \<Rightarrow> move_after_scan_pixel s
      | ThreadHpixEnd \<Rightarrow> snd (hpix_end hw s)
      | ThreadVpixEnd \<Rightarrow> snd (vpix_end hw s)
      | _ \<Rightarrow> s)"

fun run :: "nat \<Rightarrow> hardware \<Rightarrow> signal list \<Rightarrow> magnetometer \<Rightarrow> signal list \<times> magnetometer" where
  "run 0 hw pending s = (pending, s)"
| "run (Suc n) hw [] s = ([], s)"
| "run (Suc n) hw (sg # pending) s =
     (let s' = dispatch hw sg s
      in run n hw (pending @ filter handled (drop (length (emitted s)) (emitted s'))) s')"

section \<open>Operations of the scan loop\<close>

text \<open>
  The x and y positions of an image: channels 0 and 1 of every pixel, row by row.  An
  operation of the loop is a task of the chain (a slot or a worker thread, among them
  the acquisition, the storage of a pixel and the advance of the cursor) or a
  topography correction asked by the user.
\<close>

definition positions :: "image \<Rightarrow> real list list list" where
  "positions img = map (map (take 2)) img"

datatype loop_op = Task signal | CorrectTopo string

definition apply_op :: "hardware \<Rightarrow> loop_op \<Rightarrow> magnetometer \<Rightarrow> magnetometer" where
  "apply_op hw op s =
     (case op of Task sg \<Rightarrow> dispatch hw sg s | CorrectTopo f \<Rightarrow> snd (correct_topo hw s f))"

section \<open>Concrete hardware and scan states\<close>

text \<open>
  A detector whose counts carry the sentinel \<open>-1\<close> at sample \<open>[0, 0]\<close>, and a detector
  that answers a sweep with two samples per channel.
\<close>

definition fault_hw :: hardware where
  "fault_hw =
     \<lparr> odmr_counts = (\<lambda>k n. Inr [[- 1, 5], [1, 1]]),
       line_scan = (\<lambda>k path. Inr [[0, 0], [0, 0]]),
       write_ao_raises = (\<lambda>k. False),
       frequency_in_range = (\<lambda>f. f),
       list_step_in_range = (\<lambda>f. f),
       leastsq = (\<lambda>topo. Inr (0, 0, 0)) \<rparr>"

definition short_sweep_hw :: hardware where
  "short_sweep_hw = fault_hw\<lparr>odmr_counts := (\<lambda>k n. Inr [[5, 1], [1, 1]])\<rparr>"

text \<open>
  The iso-B scan of \<open>isob_state\<close> after the move to the pixel under the cursor, and
  after the acquisition that met the sentinel.
\<close>

definition after_move :: magnetometer where
  "after_move = isob_state\<lparr>current_position := (3 / 100000, 0), hw_calls := 1,
       emitted := [SigUpdateRemTime, ThreadScanPixel]\<rparr>"

definition after_fault :: magnetometer where
  "after_fault = after_move\<lparr>stopRequested := True, hw_calls := 2,
       emitted := [SigUpdateRemTime, ThreadScanPixel, SigScanPixelOver None (Some [[0]])]\<rparr>"

text \<open>The state \<^verbatim>\<open>initialize_image\<close> leaves from \<open>small_state\<close> with 7 channels.\<close>

definition allocated_state :: magnetometer where
  "allocated_state = small_state
     \<lparr> grid_X := [0, 3 / 100000], grid_Y := [0, 3 / 100000],
       return_X := [2 / 100000,  1 / 100000, 0], return_Y := [2 / 100000,  1 / 100000, 0],
       pl_image := [[[0, 0, 0, 0, 0, 0, 0], [3 / 100000, 0, 0, 0, 0, 0, 0]],
                    [[0, 3 / 100000, 0, 0, 0, 0, 0], [3 / 100000, 3 / 100000, 0, 0, 0, 0, 0]]],
       topo_corr := [[0, 0], [0, 0]] \<rparr>"

section \<open>Properties of the setters and of the duration estimate\<close>

lemma snd_returning: "snd (returning p field) = snd p"
  by (simp add: returning_def split: sum.splits)

lemma compute_scan_duration_resolution:
  "resolution (snd (compute_scan_duration s)) = resolution s"
  by (cases "fwd_time s"; cases "bwd_time s") (simp_all add: compute_scan_duration_def)

lemma publish_duration_resolution:
  "resolution (snd (publish_duration s)) = resolution s"
proof (cases "compute_scan_duration s")
  case (Pair r s')
  then have "resolution s' = resolution s"
    using compute_scan_duration_resolution [of s] by simp
  with Pair show ?thesis
    by (cases r) (simp_all add: publish_duration_def emit_def)
qed

text \<open>
  C9: while the module is not locked, \<^verbatim>\<open>set_resolution\<close> stores
  \<open>[x_res - x_res mod 2, y_res - y_res mod 2]\<close>: an odd request loses one along that
  axis, an even request is stored as it is, and both stored values are even.  This is
  the state the call leaves, whether or not the duration estimate that follows raises.
\<close>

theorem set_resolution_even:
  "\<not> locked s \<Longrightarrow>
     resolution (snd (set_resolution s x_res y_res))
       = (x_res - x_res mod 2, y_res - y_res mod 2)
     \<and> even (fst (resolution (snd (set_resolution s x_res y_res))))
     \<and> even (snd (resolution (snd (set_resolution s x_res y_res))))
     \<and> (even x_res \<longrightarrow> fst (resolution (snd (set_resolution s x_res y_res))) = x_res)
     \<and> (odd x_res \<longrightarrow> fst (resolution (snd (set_resolution s x_res y_res))) = x_res - 1)
     \<and> (even y_res \<longrightarrow> snd (resolution (snd (set_resolution s x_res y_res))) = y_res)
     \<and> (odd y_res \<longrightarrow> snd (resolution (snd (set_resolution s x_res y_res))) = y_res - 1)"
proof -
  assume unlocked: "\<not> locked s"
  define s2 where "s2 = emit (SigParamUpdated
       [(''x_resolution'', PInt (if x_res mod 2 = 1 then x_res - 1 else x_res)),
        (''y_resolution'', PInt (if y_res mod 2 = 1 then y_res - 1 else y_res))])
       (s\<lparr>resolution := (if x_res mod 2 = 1 then x_res - 1 else x_res,
                          if y_res mod 2 = 1 then y_res - 1 else y_res)\<rparr>)"
  have snd_eq: "snd (set_resolution s x_res y_res) = snd (publish_duration s2)"
    using unlocked
    by (simp add: set_resolution_def s2_def Let_def snd_returning)
  have res: "resolution (snd (set_resolution s x_res y_res))
             = (if x_res mod 2 = 1 then x_res - 1 else x_res,
                if y_res mod 2 = 1 then y_res - 1 else y_res)"
    by (simp add: snd_eq publish_duration_resolution) (simp add: s2_def emit_def)
  have x: "(if x_res mod 2 = 1 then x_res - 1 else x_res) = x_res - x_res mod 2"
    by presburger
  have y: "(if y_res mod 2 = 1 then y_res - 1 else y_res) = y_res - y_res mod 2"
    by presburger
  have ex: "even (x_res - x_res mod 2)" by presburger
  have ey: "even (y_res - y_res mod 2)" by presburger
  have x0: "even x_res \<longrightarrow> x_res - x_res mod 2 = x_res" by presburger
  have x1: "odd x_res \<longrightarrow> x_res - x_res mod 2 = x_res - 1" by presburger
  have y0: "even y_res \<longrightarrow> y_res - y_res mod 2 = y_res" by presburger
  have y1: "odd y_res \<longrightarrow> y_res - y_res mod 2 = y_res - 1" by presburger
  show ?thesis
    unfolding res x y using ex ey x0 x1 y0 y1 by simp
qed

theorem set_resolution_even_witness:
  "\<not> locked init_state
   \<and> resolution (snd (set_resolution init_state 101 64)) = (100, 64)
   \<and> resolution (snd (set_resolution init_state (- 3) 7)) = (- 4, 6)"
  using set_resolution_even [of init_state 101 64]
        set_resolution_even [of init_state "- 3" 7]
  by (simp add: init_state_def)

text \<open>
  C10: while the module is locked, each of \<^verbatim>\<open>set_range\<close>,
  \<^verbatim>\<open>set_resolution\<close>, \<^verbatim>\<open>set_return_slowness\<close> and
  \<^verbatim>\<open>set_clock_frequency\<close> returns the value already stored and leaves the whole
  state as it was: the parameter keeps its value and the list of emitted signals does
  not grow, so no parameter-updated notification is sent.
\<close>

theorem setters_locked_frame:
  "locked s \<Longrightarrow>
     set_range s range_scan = (Inr (range s), s)
     \<and> set_resolution s x_res y_res = (Inr (resolution s), s)
     \<and> set_return_slowness s rs = (Inr (return_slowness s), s)
     \<and> set_clock_frequency s time_clock = (Inr (clock_frequency s), s)"
  by (simp add: set_range_def set_resolution_def set_return_slowness_def
      set_clock_frequency_def)

theorem setters_locked_frame_witness:
  "locked (init_state\<lparr>locked := True\<rparr>)
   \<and> set_range (init_state\<lparr>locked := True\<rparr>) [1, 2, 3, 4]
       = (Inr (range init_state), init_state\<lparr>locked := True\<rparr>)
   \<and> set_resolution (init_state\<lparr>locked := True\<rparr>) 51 51
       = (Inr (100, 100), init_state\<lparr>locked := True\<rparr>)
   \<and> set_return_slowness (init_state\<lparr>locked := True\<rparr>) 7
       = (Inr (return_slowness init_state), init_state\<lparr>locked := True\<rparr>)
   \<and> set_clock_frequency (init_state\<lparr>locked := True\<rparr>) (Some 2)
       = (Inr 10, init_state\<lparr>locked := True\<rparr>)
   \<and> emitted (snd (set_range (init_state\<lparr>locked := True\<rparr>) [1, 2, 3, 4])) = []"
  using setters_locked_frame [of "init_state\<lparr>locked := True\<rparr>" "[1, 2, 3, 4]" 51 51 7 "Some 2"]
  by (simp add: init_state_def)

text \<open>
  C5: with a non-zero clock frequency and return slowness and a range holding both
  bounds of each axis, \<^verbatim>\<open>compute_scan_duration\<close> changes nothing but the stored
  duration, which becomes \<open>1.8 * (forward + retrace)\<close>: \<open>forward\<close> is
  \<open>m * resolution[0] * resolution[1] / clock_frequency\<close> with \<open>m = 1\<close> for quenching,
  \<open>2\<close> for iso-B and \<open>2 + line_number\<close> for full-B, and \<open>retrace\<close> is the number of lines
  times \<open>axis range / return_slowness\<close> over the clock frequency (horizontal raster:
  \<open>resolution[1]\<close> lines and the x range; vertical raster: \<open>resolution[0]\<close> lines and the
  y range).  For quenching at clock frequency 10 and resolution (100, 100) the forward
  term is 1000.
\<close>

theorem compute_scan_duration_value:
  assumes "clock_frequency s \<noteq> 0" and "return_slowness s \<noteq> 0"
    and "length (fst (range s)) = 2" and "length (snd (range s)) = 2"
  shows "compute_scan_duration s =
     (Inr (),
      s\<lparr>duration := 1.8 *
         ((if meas_mode s = ''quenching'' then 1
           else if meas_mode s = ''isob'' then 2
           else of_int (2 + line_number s))
            * of_int (fst (resolution s)) * of_int (snd (resolution s)) / clock_frequency s
          + (if scan_mode s = ''_hpix''
             then of_int (snd (resolution s))
                    * ((fst (range s) ! 1 - fst (range s) ! 0) / return_slowness s)
                    / clock_frequency s
             else of_int (fst (resolution s))
                    * ((snd (range s) ! 1 - snd (range s) ! 0) / return_slowness s)
                    / clock_frequency s))\<rparr>)
     \<and> (meas_mode s = ''quenching'' \<and> clock_frequency s = 10 \<and> resolution s = (100, 100)
          \<longrightarrow> fwd_time s = Inr 1000)"
proof -
  have f: "fwd_time s = Inr ((if meas_mode s = ''quenching'' then 1
           else if meas_mode s = ''isob'' then 2
           else of_int (2 + line_number s))
            * of_int (fst (resolution s)) * of_int (snd (resolution s)) / clock_frequency s)"
    using assms(1) by (simp add: fwd_time_def)
  have b: "bwd_time s = Inr (if scan_mode s = ''_hpix''
             then of_int (snd (resolution s))
                    * ((fst (range s) ! 1 - fst (range s) ! 0) / return_slowness s)
                    / clock_frequency s
             else of_int (fst (resolution s))
                    * ((snd (range s) ! 1 - snd (range s) ! 0) / return_slowness s)
                    / clock_frequency s)"
    using assms by (simp add: bwd_time_def)
  have q: "meas_mode s = ''quenching'' \<and> clock_frequency s = 10 \<and> resolution s = (100, 100)
          \<longrightarrow> fwd_time s = Inr 1000"
    by (simp add: fwd_time_def)
  show ?thesis
    using q by (simp add: compute_scan_duration_def f b)
qed

theorem compute_scan_duration_value_witness:
  "clock_frequency init_state \<noteq> 0 \<and> return_slowness init_state \<noteq> 0
   \<and> length (fst (range init_state)) = 2 \<and> length (snd (range init_state)) = 2
   \<and> meas_mode init_state = ''quenching'' \<and> clock_frequency init_state = 10
   \<and> resolution init_state = (100, 100)
   \<and> fwd_time init_state = Inr 1000
   \<and> compute_scan_duration init_state
       = (Inr (), init_state\<lparr>duration := 1.8 * (1000 + 6000)\<rparr>)"
  using compute_scan_duration_value [of init_state]
  by (simp add: init_state_def)

section \<open>Allocation of the image\<close>

lemma linspace_ok:
  "0 < num \<Longrightarrow> \<exists>xs. linspace a b num = Inr xs \<and> length xs = nat num \<and> xs \<noteq> []"
  by (auto simp: linspace_def)

lemma arange_ok: "step \<noteq> 0 \<Longrightarrow> \<exists>xs. arange a b step = Inr xs"
  by (simp add: arange_def)

lemma allocate_image_ok:
  assumes "2 \<le> n"
  shows "\<exists>s'. allocate_image s n = (Inr 0, s')
          \<and> image_ok s' (length (grid_Y s)) (length (grid_X s)) n
          \<and> meas_mode s' = meas_mode s \<and> image_size s' = image_size s \<and> incr s' = incr s"
  using assms
  by (simp add: allocate_image_def Let_def image_ok_def set_channel_def zero_image_def)

lemma initialize_image_alloc:
  assumes "2 \<le> length (fst (range s))" "2 \<le> length (snd (range s))"
    and "fst (range s) ! 0 \<le> fst (range s) ! 1" "snd (range s) ! 0 \<le> snd (range s) ! 1"
    and "0 < fst (resolution s)" "0 < snd (resolution s)"
    and "return_slowness s \<noteq> 0" and "2 \<le> n"
  shows "\<exists>s'. initialize_image s n k = (Inr 0, s')
          \<and> image_ok s' (nat (snd (resolution s))) (nat (fst (resolution s))) n
          \<and> meas_mode s' = meas_mode s \<and> image_size s' = image_size s \<and> incr s' = incr s"
proof -
  define h where "h = fst (range s) ! 1 - fst (range s) ! 0"
  define v where "v = snd (range s) ! 1 - snd (range s) ! 0"
  obtain xs where xs: "linspace (fst (center_position s) - h * 0.5)
        (fst (center_position s) + h * 0.5) (fst (resolution s)) = Inr xs"
      "length xs = nat (fst (resolution s))" "xs \<noteq> []"
    using linspace_ok [OF assms(5)] by blast
  obtain ys where ys: "linspace (snd (center_position s) - v * 0.5)
        (snd (center_position s) + v * 0.5) (snd (resolution s)) = Inr ys"
      "length ys = nat (snd (resolution s))" "ys \<noteq> []"
    using linspace_ok [OF assms(6)] by blast
  obtain rx where rx: "arange (hd xs) (last xs) (return_slowness s) = Inr rx"
    using arange_ok [OF assms(7)] by blast
  obtain ry where ry: "arange (hd ys) (last ys) (return_slowness s) = Inr ry"
    using arange_ok [OF assms(7)] by blast
  define s3 where "s3 = s\<lparr>grid_X := xs, grid_Y := ys, return_X := rev rx, return_Y := rev ry\<rparr>"
  have hv: "0 \<le> h" "0 \<le> v" using assms(3,4) by (simp_all add: h_def v_def)
  have eq: "initialize_image s n k = allocate_image s3 n"
    using assms(1,2) hv xs ys rx ry
    unfolding initialize_image_def h_def [symmetric] v_def [symmetric] Let_def s3_def
    by simp
  obtain s' where s': "allocate_image s3 n = (Inr 0, s')"
      "image_ok s' (length (grid_Y s3)) (length (grid_X s3)) n"
      "meas_mode s' = meas_mode s3" "image_size s' = image_size s3" "incr s' = incr s3"
    using allocate_image_ok [OF assms(8), of s3] by blast
  show ?thesis
    using eq s' xs(2) ys(2) by (simp add: s3_def)
qed

lemma rint_1: "rint 1 = 1" by (simp add: rint_def)

text \<open>
  C6, as the code has it: with a range that holds both bounds of each axis in order, a
  positive resolution, a non-zero retrace step and, for full-B, a non-zero sweep step
  that gives a number of points that is not negative, \<^verbatim>\<open>set_meas_mode\<close> returns, the
  channel count is 5 for quenching, 7 for iso-B and 8 for full-B, the cursor increment is
  2 for quenching and 1 otherwise, and the image is allocated anew with \<open>resolution[1]\<close> rows,
  \<open>resolution[0]\<close> columns and that many channels: channels 0 and 1 hold the x and y
  positions and every other channel is zero.
\<close>

theorem set_meas_mode_image:
  assumes "2 \<le> length (fst (range s))" "2 \<le> length (snd (range s))"
    and "fst (range s) ! 0 \<le> fst (range s) ! 1" "snd (range s) ! 0 \<le> snd (range s) ! 1"
    and "0 < fst (resolution s)" "0 < snd (resolution s)"
    and "return_slowness s \<noteq> 0"
    and "mode \<noteq> ''quenching'' \<and> mode \<noteq> ''isob'' \<longrightarrow>
           odmr_mw_step s \<noteq> 0
           \<and> 0 \<le> rint ((odmr_mw_stop s - odmr_mw_start s) / odmr_mw_step s) + 1"
  shows "\<exists>s'. set_meas_mode s mode = (Inr (), s')
     \<and> meas_mode s' = mode
     \<and> image_size s' = (if mode = ''quenching'' then 5 else if mode = ''isob'' then 7 else 8)
     \<and> incr s' = (if mode = ''quenching'' then 2 else 1)
     \<and> image_ok s' (nat (snd (resolution s))) (nat (fst (resolution s))) (image_size s')"
proof -
  consider (q) "mode = ''quenching''" | (i) "mode = ''isob''"
    | (f) "mode \<noteq> ''quenching''" "mode \<noteq> ''isob''" by blast
  then show ?thesis
  proof cases
    case q
    define s1 where "s1 = s\<lparr>meas_mode := mode, image_size := 5, scanline_size := 4, incr := 2\<rparr>"
    have "\<exists>s'. initialize_image s1 5 4 = (Inr 0, s')
          \<and> image_ok s' (nat (snd (resolution s1))) (nat (fst (resolution s1))) 5
          \<and> meas_mode s' = meas_mode s1 \<and> image_size s' = image_size s1 \<and> incr s' = incr s1"
      using assms(1-7) by (intro initialize_image_alloc) (simp_all add: s1_def)
    then obtain s' where s': "initialize_image s1 5 4 = (Inr 0, s')"
      "image_ok s' (nat (snd (resolution s1))) (nat (fst (resolution s1))) 5"
      "meas_mode s' = meas_mode s1" "image_size s' = image_size s1" "incr s' = incr s1"
      by blast
    have "set_meas_mode s mode = (Inr (), s')"
      using q s'(1) by (simp add: set_meas_mode_def s1_def)
    then show ?thesis using q s'(2-5) by (simp add: s1_def)
  next
    case i
    define s1 where "s1 = s\<lparr>meas_mode := mode, incr := 1, image_size := 7,
                             scanline_size := 8, line_number := 2\<rparr>"
    have "\<exists>s'. initialize_image s1 7 8 = (Inr 0, s')
          \<and> image_ok s' (nat (snd (resolution s1))) (nat (fst (resolution s1))) 7
          \<and> meas_mode s' = meas_mode s1 \<and> image_size s' = image_size s1 \<and> incr s' = incr s1"
      using assms(1-7) by (intro initialize_image_alloc) (simp_all add: s1_def)
    then obtain s' where s': "initialize_image s1 7 8 = (Inr 0, s')"
      "image_ok s' (nat (snd (resolution s1))) (nat (fst (resolution s1))) 7"
      "meas_mode s' = meas_mode s1" "image_size s' = image_size s1" "incr s' = incr s1"
      by blast
    have "set_meas_mode s mode = (Inr (), s')"
      using i s'(1) by (simp add: set_meas_mode_def s1_def)
    then show ?thesis using i s'(2-5) by (simp add: s1_def)
  next
    case f
    define s1 where "s1 = s\<lparr>meas_mode := mode, incr := 1, image_size := 8,
        scanline_size := 10,
        line_number := rint ((odmr_mw_stop s - odmr_mw_start s) / odmr_mw_step s) + 1\<rparr>"
    have "\<exists>s'. initialize_image s1 8 10 = (Inr 0, s')
          \<and> image_ok s' (nat (snd (resolution s1))) (nat (fst (resolution s1))) 8
          \<and> meas_mode s' = meas_mode s1 \<and> image_size s' = image_size s1 \<and> incr s' = incr s1"
      using assms(1-7) by (intro initialize_image_alloc) (simp_all add: s1_def)
    then obtain s' where s': "initialize_image s1 8 10 = (Inr 0, s')"
      "image_ok s' (nat (snd (resolution s1))) (nat (fst (resolution s1))) 8"
      "meas_mode s' = meas_mode s1" "image_size s' = image_size s1" "incr s' = incr s1"
      by blast
    have "set_meas_mode s mode = (Inr (), s')"
      using f s'(1) assms(8) by (simp add: set_meas_mode_def s1_def Let_def)
    then show ?thesis using f s'(2-5) by (simp add: s1_def)
  qed
qed

theorem set_meas_mode_image_witness:
  "2 \<le> length (fst (range small_state)) \<and> 2 \<le> length (snd (range small_state))
   \<and> fst (range small_state) ! 0 \<le> fst (range small_state) ! 1
   \<and> snd (range small_state) ! 0 \<le> snd (range small_state) ! 1
   \<and> 0 < fst (resolution small_state) \<and> 0 < snd (resolution small_state)
   \<and> return_slowness small_state \<noteq> 0
   \<and> (\<exists>s'. set_meas_mode small_state ''isob'' = (Inr (), s')
          \<and> meas_mode s' = ''isob'' \<and> image_size s' = 7 \<and> incr s' = 1
          \<and> image_ok s' 2 2 7)
   \<and> odmr_mw_step small_state \<noteq> 0
   \<and> 0 \<le> rint ((odmr_mw_stop small_state - odmr_mw_start small_state)
                 / odmr_mw_step small_state) + 1
   \<and> (\<exists>s'. set_meas_mode small_state ''fullb'' = (Inr (), s')
          \<and> meas_mode s' = ''fullb'' \<and> image_size s' = 8 \<and> incr s' = 1
          \<and> image_ok s' 2 2 8)"
  using set_meas_mode_image [of small_state "''isob''"]
    set_meas_mode_image [of small_state "''fullb''"]
  by (auto simp: small_state_def init_state_def rint_1)

lemma small_isob:
  "pl_image (snd (set_meas_mode small_state ''isob'')) =
     [[[0, 0, 0, 0, 0, 0, 0], [3 / 100000, 0, 0, 0, 0, 0, 0]],
      [[0, 3 / 100000, 0, 0, 0, 0, 0], [3 / 100000, 3 / 100000, 0, 0, 0, 0, 0]]]"
  by (simp add: set_meas_mode_def initialize_image_def allocate_image_def linspace_def
      arange_def zero_image_def set_channel_def small_state_def init_state_def Let_def
      upt_conv_Cons eval_nat_numeral)

text \<open>
  C6 as it is written asks for a zeroed grid.  The grid that \<^verbatim>\<open>set_meas_mode\<close>
  allocates is not zero in channel 0: at resolution 2 by 2 over a range of 30
  micrometres, the pixel of row 0 and column 1 holds its x position there.
\<close>

theorem set_meas_mode_not_zeroed:
  "pl_image (snd (set_meas_mode small_state ''isob'')) ! 0 ! 1 ! 0 = 3 / 100000
   \<and> pl_image (snd (set_meas_mode small_state ''isob'')) ! 0 ! 1 ! 0 \<noteq> 0"
  by (simp add: small_isob)

section \<open>Storage of an iso-B pixel\<close>

lemma shaped_dims:
  assumes "shaped img rows cols n" "r < rows" "c < cols"
  shows "img \<noteq> []" "nrows img = rows" "ncols img = cols" "nchans img = n"
    "length (img ! r) = cols" "length (img ! r ! c) = n"
proof -
  from assms(1,2) show ne: "img \<noteq> []" by (auto simp: shaped_def)
  from assms(1) show "nrows img = rows" by (simp add: shaped_def nrows_def)
  from assms(1) ne have h: "length (hd img) = cols" "\<forall>c \<in> set (hd img). length c = n"
    by (auto simp: shaped_def)
  then show "ncols img = cols" using ne by (cases img) (simp_all add: ncols_def)
  from h assms(3) have "hd img \<noteq> []" by auto
  with h ne show "nchans img = n"
    by (cases img; cases "hd img") (auto simp: nchans_def)
  from assms(1,2) have mem: "img ! r \<in> set img" by (simp add: shaped_def)
  with assms(1) show lr: "length (img ! r) = cols" by (simp add: shaped_def)
  with assms(3) have "img ! r ! c \<in> set (img ! r)" by simp
  with assms(1) mem show "length (img ! r ! c) = n" by (simp add: shaped_def)
qed

lemma shaped2_dims:
  assumes "shaped2 a rows cols" "r < rows"
  shows "nrows a = rows" "ncols a = cols" "length (a ! r) = cols"
proof -
  from assms have ne: "a \<noteq> []" by (auto simp: shaped2_def)
  from assms(1) show "nrows a = rows" by (simp add: shaped2_def nrows_def)
  from assms(1) ne show "ncols a = cols" by (cases a) (auto simp: shaped2_def ncols_def)
  from assms show "length (a ! r) = cols" by (simp add: shaped2_def)
qed

lemma shaped_put:
  assumes "shaped img rows cols n"
  shows "shaped (put img r c k v) rows cols n"
proof -
  have "length x = cols \<and> (\<forall>c \<in> set x. length c = n)"
    if "x \<in> set (put img r c k v)" for x
  proof -
    from that have "x \<in> set img \<or> x = (img ! r)[c := (img ! r ! c)[k := v]] \<and> r < length img"
      unfolding put_def using set_update_subset_insert [of img r]
      by (cases "r < length img") (auto simp: list_update_beyond)
    then show ?thesis
    proof
      assume "x \<in> set img" with assms show ?thesis by (simp add: shaped_def)
    next
      assume x: "x = (img ! r)[c := (img ! r ! c)[k := v]] \<and> r < length img"
      then have ir: "img ! r \<in> set img" by simp
      with assms have l: "length (img ! r) = cols" "\<forall>c \<in> set (img ! r). length c = n"
        by (simp_all add: shaped_def)
      have "length y = n" if "y \<in> set ((img ! r)[c := (img ! r ! c)[k := v]])" for y
      proof -
        from that have "y \<in> set (img ! r) \<or> y = (img ! r ! c)[k := v] \<and> c < length (img ! r)"
          using set_update_subset_insert [of "img ! r" c]
          by (cases "c < length (img ! r)") (auto simp: list_update_beyond)
        with l show ?thesis by auto
      qed
      with x l show ?thesis by simp
    qed
  qed
  with assms show ?thesis by (simp add: shaped_def put_def)
qed

lemma nth_put:
  assumes "r < length img" "c < length (img ! r)"
  shows "put img r c k v ! r ! c = (img ! r ! c)[k := v]"
  using assms by (simp add: put_def)

lemma set_cell_ok:
  assumes "shaped img rows cols n" "r < rows" "c < cols" "k < n"
  shows "set_cell img r c k v = Inr (put img r c k v)"
  using shaped_dims [OF assms(1-3)] assms by (simp add: set_cell_def)

lemma get_cell_ok:
  assumes "shaped img rows cols n" "r < rows" "c < cols" "k < n"
  shows "get_cell img r c k = Inr (img ! r ! c ! k)"
  using shaped_dims [OF assms(1-3)] assms by (simp add: get_cell_def)

lemma get2_ok:
  assumes "shaped2 a rows cols" "r < rows" "c < cols"
  shows "get2 a r c = Inr (a ! r ! c)"
  using shaped2_dims [OF assms(1,2)] assms by (simp add: get2_def)

lemma put_cell_value:
  assumes "shaped img rows cols n" "r < rows" "c < cols"
  shows "put img r c k v ! r ! c = (img ! r ! c)[k := v]"
  using shaped_dims [OF assms] assms by (simp add: nth_put shaped_def)

lemma set_chan_slice_ok:
  assumes "shaped img rows cols n" "r < rows" "c < cols" "6 \<le> n"
  shows "set_chan_slice img r c 4 6 [a, b] = Inr (put (put img r c 4 a) r c 5 b)"
proof -
  have "[4..<min 6 n] = [4, 5]" using assms(4) by (simp add: min_def upt_conv_Cons)
  then show ?thesis
    using shaped_dims [OF assms(1-3)] assms by (simp add: set_chan_slice_def bc_to_def)
qed


lemma attempt_Inr: "attempt (Inr x) s k = k x"
  by (simp add: attempt_def)

lemma attempt_Inl: "attempt (Inl e) s k = (Inl e, s)"
  by (simp add: attempt_def)

text \<open>
  C7: in iso-B mode, when the acquisition of the pixel under the cursor returned the two
  counts \<open>pl1\<close>, \<open>pl2\<close> and a non-empty row of topography samples, \<^verbatim>\<open>treat_data\<close>
  returns and the pixel holds \<open>pl1 - pl2\<close> in channel 3 (PLdiff), \<open>pl1\<close> and \<open>pl2\<close> in
  channels 4 and 5, and the topography computed from the arithmetic mean of the
  topography samples: \<open>z_scanner_range - coeff_topo * mean\<close> in channel 6, and the same
  value less the correction plane added to channel 2.
\<close>

theorem treat_data_isob_stores:
  assumes mode: "meas_mode s = ''isob''"
    and img: "shaped (pl_image s) rows cols n" "7 \<le> n"
    and tc: "shaped2 (topo_corr s) trows tcols"
    and pos: "line_position s = (lx, ly)" "ly < rows" "lx < cols" "ly < trows" "lx < tcols"
    and d: "2 \<le> length d" "d ! 0 = [pl1, pl2]" "d ! 1 \<noteq> []"
  shows "\<exists>s'. treat_data s (Some d) data_isob = (Inr (), s')
      \<and> pl_image s' ! ly ! lx ! 3 = pl1 - pl2
      \<and> pl_image s' ! ly ! lx ! 4 = pl1
      \<and> pl_image s' ! ly ! lx ! 5 = pl2
      \<and> pl_image s' ! ly ! lx ! 6
           = z_scanner_range s - coeff_topo s * (sum_list (d ! 1) / of_nat (length (d ! 1)))
      \<and> pl_image s' ! ly ! lx ! 2
           = pl_image s ! ly ! lx ! 2
             + (z_scanner_range s - coeff_topo s * (sum_list (d ! 1) / of_nat (length (d ! 1)))
                - topo_corr s ! ly ! lx)"
proof -
  define m where "m = sum_list (d ! 1) / of_nat (length (d ! 1))"
  define raw where "raw = z_scanner_range s - coeff_topo s * m"
  define cell where "cell = pl_image s ! ly ! lx"
  define img1 where "img1 = put (pl_image s) ly lx 6 raw"
  define img2 where "img2 = put img1 ly lx 2 (cell ! 2 + (raw - topo_corr s ! ly ! lx))"
  define img3 where "img3 = put img2 ly lx 3 (pl1 - pl2)"
  define img4 where "img4 = put (put img3 ly lx 4 pl1) ly lx 5 pl2"
  have sh: "shaped img1 rows cols n" "shaped img2 rows cols n" "shaped img3 rows cols n"
    using img(1) by (simp_all add: img1_def img2_def img3_def shaped_put)
  have len: "length cell = n"
    using shaped_dims(6) [OF img(1) pos(2,3)] by (simp add: cell_def)
  have c1: "img1 ! ly ! lx = cell[6 := raw]"
    using put_cell_value [OF img(1) pos(2,3)] by (simp add: img1_def cell_def)
  have c2: "img2 ! ly ! lx = cell[6 := raw, 2 := cell ! 2 + (raw - topo_corr s ! ly ! lx)]"
    using put_cell_value [OF sh(1) pos(2,3)] c1 by (simp add: img2_def)
  have c3: "img3 ! ly ! lx
      = cell[6 := raw, 2 := cell ! 2 + (raw - topo_corr s ! ly ! lx), 3 := pl1 - pl2]"
    using put_cell_value [OF sh(2) pos(2,3)] c2 by (simp add: img3_def)
  have sh4: "shaped (put img3 ly lx 4 pl1) rows cols n"
    using sh(3) by (rule shaped_put)
  have c4: "img4 ! ly ! lx
      = cell[6 := raw, 2 := cell ! 2 + (raw - topo_corr s ! ly ! lx), 3 := pl1 - pl2,
             4 := pl1, 5 := pl2]"
    using put_cell_value [OF sh4 pos(2,3)] put_cell_value [OF sh(3) pos(2,3)] c3
    by (simp add: img4_def)
  have e1: "subscript (Some d) 1 = Inr (d ! 1)" "subscript (Some d) 0 = Inr [pl1, pl2]"
    using d by (auto simp: subscript_def)
  have e2: "np_mean (d ! 1) = Inr m"
    using d(3) by (simp add: np_mean_def m_def)
  have e3: "set_cell (pl_image s) ly lx 6 raw = Inr img1"
    using set_cell_ok [OF img(1) pos(2,3), of 6 raw] img(2) by (simp add: img1_def)
  have e4: "get_cell img1 ly lx 2 = Inr (cell ! 2)"
    using get_cell_ok [OF sh(1) pos(2,3), of 2] img(2) c1 by simp
  have e5: "get2 (topo_corr s) ly lx = Inr (topo_corr s ! ly ! lx)"
    using get2_ok [OF tc pos(4,5)] .
  have e6: "set_cell img1 ly lx 2 (cell ! 2 + (raw - topo_corr s ! ly ! lx)) = Inr img2"
    using set_cell_ok [OF sh(1) pos(2,3), of 2] img(2) by (simp add: img2_def)
  have e7: "set_cell img2 ly lx 3 (pl1 - pl2) = Inr img3"
    using set_cell_ok [OF sh(2) pos(2,3), of 3] img(2) by (simp add: img3_def)
  have e8: "set_chan_slice img3 ly lx 4 6 [pl1, pl2] = Inr img4"
    using set_chan_slice_ok [OF sh(3) pos(2,3)] img(2) by (simp add: img4_def)
  have run: "treat_data_isob s (Some d) = (Inr (), s\<lparr>pl_image := img4\<rparr>)"
    unfolding treat_data_isob_def
    by (simp add: Let_def pos(1) e1 e2 raw_def [symmetric] e3 e4 e5 e6 e7 e8
        attempt_Inr item_def del: One_nat_def)
  have "treat_data s (Some d) data_isob
          = (Inr (), emit SigFinishedDataTreatment (s\<lparr>pl_image := img4\<rparr>))"
    by (simp add: treat_data_def mode run)
  moreover have "pl_image (emit SigFinishedDataTreatment (s\<lparr>pl_image := img4\<rparr>)) = img4"
    by (simp add: emit_def)
  ultimately show ?thesis
    using c4 len img(2) by (simp add: raw_def m_def cell_def)
qed

theorem treat_data_isob_stores_witness:
  "meas_mode isob_state = ''isob''
   \<and> shaped (pl_image isob_state) 2 2 7 \<and> shaped2 (topo_corr isob_state) 2 2
   \<and> line_position isob_state = (1, 0)
   \<and> (\<exists>s'. treat_data isob_state (Some [[5, 3], [1, 2]]) None = (Inr (), s')
          \<and> pl_image s' ! 0 ! 1 ! 3 = 2
          \<and> pl_image s' ! 0 ! 1 ! 4 = 5
          \<and> pl_image s' ! 0 ! 1 ! 5 = 3
          \<and> pl_image s' ! 0 ! 1 ! 6 = 3 / 1000000 - 3 / 4000000 * (3 / 2)
          \<and> pl_image s' ! 0 ! 1 ! 2 = 3 / 1000000 - 3 / 4000000 * (3 / 2))"
  using treat_data_isob_stores [of isob_state 2 2 7 2 2 1 0 "[[5, 3], [1, 2]]" 5 3 None]
  by (auto simp: isob_state_def small_state_def init_state_def shaped_def shaped2_def)

section \<open>Resonance tracking\<close>

lemma np_argmin_props:
  assumes "np_argmin xs = Inr j"
  shows "xs \<noteq> []" "j < length xs" "xs ! j = Min (set xs)" "\<forall>i < j. xs ! i \<noteq> Min (set xs)"
    "\<forall>x \<in> set xs. xs ! j \<le> x"
proof -
  from assms show ne: "xs \<noteq> []" by (auto simp: np_argmin_def split: if_splits)
  from assms ne have j: "j = length (takeWhile (\<lambda>x. x \<noteq> Min (set xs)) xs)"
    by (simp add: np_argmin_def)
  have "Min (set xs) \<in> set xs" using ne by (intro Min_in) simp_all
  then have ex: "\<exists>x \<in> set xs. \<not> x \<noteq> Min (set xs)" by auto
  have "takeWhile (\<lambda>x. x \<noteq> Min (set xs)) xs \<noteq> xs" using ex by simp
  moreover have "takeWhile (\<lambda>x. x \<noteq> Min (set xs)) xs = take j xs"
    unfolding j by (rule takeWhile_eq_take)
  ultimately have "take j xs \<noteq> xs" by simp
  then show lt: "j < length xs" by (cases "j < length xs") simp_all
  show eq: "xs ! j = Min (set xs)"
    using nth_length_takeWhile [of "\<lambda>x. x \<noteq> Min (set xs)" xs] lt unfolding j by auto
  show "\<forall>i < j. xs ! i \<noteq> Min (set xs)"
  proof (intro allI impI)
    fix i assume "i < j"
    then have i: "i < length (takeWhile (\<lambda>x. x \<noteq> Min (set xs)) xs)" by (simp add: j)
    then have "takeWhile (\<lambda>x. x \<noteq> Min (set xs)) xs ! i
                 \<in> set (takeWhile (\<lambda>x. x \<noteq> Min (set xs)) xs)" by (rule nth_mem)
    then have "takeWhile (\<lambda>x. x \<noteq> Min (set xs)) xs ! i \<noteq> Min (set xs)"
      by (auto dest: set_takeWhileD)
    with i show "xs ! i \<noteq> Min (set xs)" by (simp add: takeWhile_nth)
  qed
  show "\<forall>x \<in> set xs. xs ! j \<le> x" using eq by simp
qed

lemma np_argmin_total: "xs \<noteq> [] \<Longrightarrow> \<exists>j. np_argmin xs = Inr j"
  by (simp add: np_argmin_def)

lemma np_argmin_middle:
  assumes "\<forall>a \<in> set A. a \<noteq> m" "\<forall>x \<in> set (A @ m # B). m \<le> x"
  shows "np_argmin (A @ m # B) = Inr (length A)"
proof -
  have "Min (set (A @ m # B)) = m"
    using assms(2) by (intro Min_eqI) auto
  moreover have "takeWhile (\<lambda>x. x \<noteq> m) (A @ m # B) = A"
    using assms(1) by simp
  ultimately show ?thesis by (simp add: np_argmin_def)
qed

lemma select_minimum_inside:
  "minfield < f0 \<Longrightarrow> f0 < maxfield \<Longrightarrow> select_minimum fl d0 f0 minfield maxfield = Inr f0"
  by (simp add: select_minimum_def)

lemma select_minimum_bound:
  assumes am: "np_argmin d0 = Inr indmin" and len: "length d0 = length fl"
    and inb: "minfield \<le> fl ! indmin" "fl ! indmin \<le> maxfield"
  shows "select_minimum fl d0 (fl ! indmin) minfield maxfield = Inr (fl ! indmin)"
proof (cases "fl ! indmin \<le> minfield \<or> fl ! indmin \<ge> maxfield")
  case False
  then show ?thesis by (simp add: select_minimum_def)
next
  case True
  define P where "P = (\<lambda>i. fl ! i \<le> maxfield \<and> fl ! i \<ge> minfield)"
  define N where "N = length fl"
  note ap = np_argmin_props [OF am]
  have lt: "indmin < N" using ap(2) len by (simp add: N_def)
  have "[0..<N] = [0..<indmin] @ [indmin..<N]"
    using lt upt_add_eq_append [of 0 indmin "N - indmin"] by simp
  moreover have "[indmin..<N] = indmin # [Suc indmin..<N]"
    using lt by (simp add: upt_conv_Cons)
  ultimately have split: "[0..<N] = [0..<indmin] @ indmin # [Suc indmin..<N]" by simp
  have Pi: "P indmin" using inb by (simp add: P_def)
  define A where "A = filter P [0..<indmin]"
  define B where "B = filter P [Suc indmin..<N]"
  have ind: "filter P [0..<N] = A @ indmin # B"
    by (subst split) (simp add: Pi A_def B_def)
  have inN: "\<forall>i \<in> set (filter P [0..<N]). i < length d0"
    by (simp add: N_def len)
  have "\<forall>a \<in> set (map (\<lambda>i. d0 ! i) A). a \<noteq> d0 ! indmin"
    using ap(3,4) by (auto simp: A_def)
  moreover have "\<forall>x \<in> set (map (\<lambda>i. d0 ! i) A @ d0 ! indmin # map (\<lambda>i. d0 ! i) B). d0 ! indmin \<le> x"
  proof
    fix x assume "x \<in> set (map (\<lambda>i. d0 ! i) A @ d0 ! indmin # map (\<lambda>i. d0 ! i) B)"
    then have "x \<in> (\<lambda>i. d0 ! i) ` set (filter P [0..<N])" by (auto simp: ind)
    then have "x \<in> set d0" using inN by auto
    with ap(5) show "d0 ! indmin \<le> x" by simp
  qed
  ultimately have arg: "np_argmin (map (\<lambda>i. d0 ! i) (filter P [0..<N])) = Inr (length A)"
    using np_argmin_middle [of "map (\<lambda>i. d0 ! i) A" "d0 ! indmin" "map (\<lambda>i. d0 ! i) B"]
    by (simp add: ind)
  have nth: "filter P [0..<N] ! length A = indmin" by (simp add: ind)
  have noerr: "\<not> (\<exists>i \<in> set (filter P [0..<N]). length d0 \<le> i)"
    using inN by auto
  show ?thesis
    using True arg nth noerr
    unfolding select_minimum_def Let_def P_def [symmetric] N_def [symmetric]
    by simp
qed

lemma select_minimum_outside:
  assumes out: "f0 \<le> minfield \<or> f0 \<ge> maxfield" and len: "length d0 = length fl"
    and cand: "\<exists>i < length fl. minfield \<le> fl ! i \<and> fl ! i \<le> maxfield"
  shows "\<exists>j < length fl. select_minimum fl d0 f0 minfield maxfield = Inr (fl ! j)
           \<and> minfield \<le> fl ! j \<and> fl ! j \<le> maxfield
           \<and> (\<forall>i < length fl. minfield \<le> fl ! i \<and> fl ! i \<le> maxfield \<longrightarrow> d0 ! j \<le> d0 ! i)"
proof -
  define P where "P = (\<lambda>i. fl ! i \<le> maxfield \<and> fl ! i \<ge> minfield)"
  define idx where "idx = filter P [0..<length fl]"
  have mem: "i \<in> set idx \<longleftrightarrow> i < length fl \<and> P i" for i by (auto simp: idx_def)
  from cand obtain i0 where "i0 < length fl" "P i0" unfolding P_def by blast
  then have "i0 \<in> set idx" by (simp add: mem)
  then have ne: "map (\<lambda>i. d0 ! i) idx \<noteq> []" by auto
  then obtain j where j: "np_argmin (map (\<lambda>i. d0 ! i) idx) = Inr j"
    using np_argmin_total by blast
  note ap = np_argmin_props [OF j]
  have jl: "j < length idx" using ap(2) by simp
  then have kin: "idx ! j \<in> set idx" by simp
  have least: "d0 ! (idx ! j) \<le> d0 ! i" if "i < length fl" "P i" for i
  proof -
    from that have "i \<in> set idx" by (simp add: mem)
    then have "d0 ! i \<in> set (map (\<lambda>i. d0 ! i) idx)" by simp
    with ap(5) have "map (\<lambda>i. d0 ! i) idx ! j \<le> d0 ! i" by blast
    with jl show ?thesis by simp
  qed
  have noerr: "\<not> (\<exists>i \<in> set idx. length d0 \<le> i)" using mem len by auto
  have "select_minimum fl d0 f0 minfield maxfield = Inr (fl ! (idx ! j))"
    using out j noerr
    unfolding select_minimum_def Let_def P_def [symmetric] idx_def [symmetric]
    by simp
  moreover have "idx ! j < length fl" "P (idx ! j)" using kin mem by auto
  moreover have "\<forall>i < length fl. minfield \<le> fl ! i \<and> fl ! i \<le> maxfield \<longrightarrow> d0 ! (idx ! j) \<le> d0 ! i"
    using least unfolding P_def by blast
  ultimately show ?thesis unfolding P_def by blast
qed

lemma track_window_ok:
  assumes "stp = (if resonance_frequency s - c < threshold s then mw_step s else mw_step_hf s)"
    and "stp \<noteq> 0" and "0 \<le> rint ((last fl - hd fl) / stp) + 1"
  shows "track_window s fl c =
     (Inr (), s\<lparr>mw_start := c - (last fl - hd fl) / 2, mw_stop := c + (last fl - hd fl) / 2,
                odmr_mw_start := c - (last fl - hd fl) / 2,
                odmr_mw_stop := c + (last fl - hd fl) / 2,
                odmr_mw_step := stp,
                line_number := rint ((last fl - hd fl) / stp) + 1\<rparr>)"
proof -
  have w: "(2 * a - 2 * b) / (2 * y) = (a - b) / y" for a b y :: real
  proof -
    have "(2 * a - 2 * b) / (2 * y) = (2 * (a - b)) / (2 * y)" by (simp add: algebra_simps)
    also have "\<dots> = (a - b) / y" by (rule mult_divide_mult_cancel_left) simp
    finally show ?thesis .
  qed
  show ?thesis
  proof (cases "resonance_frequency s - c < threshold s")
    case True
    with assms have "stp = mw_step s" "mw_step s \<noteq> 0"
      "0 \<le> rint ((last fl - hd fl) / mw_step s) + 1" by simp_all
    with True show ?thesis by (simp add: track_window_def Let_def w)
  next
    case False
    with assms have "stp = mw_step_hf s" "mw_step_hf s \<noteq> 0"
      "0 \<le> rint ((last fl - hd fl) / mw_step_hf s) + 1" by simp_all
    with False show ?thesis by (simp add: track_window_def Let_def w)
  qed
qed

lemma treat_data_fullb_run:
  assumes fl: "sweep_frequencies s = Inr fl"
    and img: "shaped (pl_image s) rows cols n" "8 \<le> n"
    and tc: "shaped2 (topo_corr s) trows tcols"
    and pos: "line_position s = (lx, ly)" "ly < rows" "lx < cols" "ly < trows" "lx < tcols"
    and d: "2 \<le> length d" "length (d ! 0) = length fl" "d ! 1 \<noteq> []"
    and am: "np_argmin (d ! 0) = Inr indmin"
    and di: "di \<noteq> []" "2 \<le> length (di ! 0)"
    and sel: "select_minimum fl (d ! 0) (fl ! indmin) (min_fullb s) (max_fullb s) = Inr c"
  shows "\<exists>img'. treat_data_fullb s (Some d) (Some di)
           = track_window (s\<lparr>freq_list := fl, esr_line := zip fl (d ! 0), pl_image := img'\<rparr>) fl c"
proof -
  define m where "m = sum_list (d ! 1) / of_nat (length (d ! 1))"
  define raw where "raw = z_scanner_range s - coeff_topo s * m"
  define d0 where "d0 = d ! 0"
  define d1 where "d1 = d ! 1"
  define a where "a = di ! 0 ! 0"
  define b where "b = di ! 0 ! 1"
  define f0 where "f0 = fl ! indmin"
  define img1 where "img1 = put (pl_image s) ly lx 7 raw"
  define img2 where "img2 = put img1 ly lx 2 (img1 ! ly ! lx ! 2 + (raw - topo_corr s ! ly ! lx))"
  define img3 where "img3 = put img2 ly lx 3 f0"
  define img4 where "img4 = put img3 ly lx 4 (a - b)"
  define img5 where "img5 = put img4 ly lx 5 a"
  define img6 where "img6 = put img5 ly lx 6 b"
  have sh: "shaped img1 rows cols n" "shaped img2 rows cols n" "shaped img3 rows cols n"
      "shaped img4 rows cols n" "shaped img5 rows cols n"
    using img(1) by (simp_all add: img1_def img2_def img3_def img4_def img5_def shaped_put)
  have e0: "subscript (Some d) 0 = Inr d0" "subscript (Some d) 1 = Inr d1"
    using d(1) by (auto simp: subscript_def d0_def d1_def)
  have e1: "bc_to (length fl) d0 = Inr d0" using d(2) by (simp add: bc_to_def d0_def)
  have e2: "np_argmin d0 = Inr indmin" using am by (simp add: d0_def)
  have e3: "np_mean d1 = Inr m" using d(3) by (simp add: np_mean_def m_def d1_def)
  have e4: "set_cell (pl_image s) ly lx 7 raw = Inr img1"
    using set_cell_ok [OF img(1) pos(2,3), of 7 raw] img(2) by (simp add: img1_def)
  have e5: "get_cell img1 ly lx 2 = Inr (img1 ! ly ! lx ! 2)"
    using get_cell_ok [OF sh(1) pos(2,3), of 2] img(2) by simp
  have e6: "get2 (topo_corr s) ly lx = Inr (topo_corr s ! ly ! lx)"
    using get2_ok [OF tc pos(4,5)] .
  have e7: "set_cell img1 ly lx 2 (img1 ! ly ! lx ! 2 + (raw - topo_corr s ! ly ! lx)) = Inr img2"
    using set_cell_ok [OF sh(1) pos(2,3), of 2] img(2) by (simp add: img2_def)
  have il: "indmin < length fl" using np_argmin_props(2) [OF am] d(2) by simp
  have e8: "item fl indmin = Inr f0" using il by (simp add: item_def f0_def)
  have e9: "set_cell img2 ly lx 3 f0 = Inr img3"
    using set_cell_ok [OF sh(2) pos(2,3), of 3] img(2) by (simp add: img3_def)
  have e10: "subscript (Some di) 0 = Inr (di ! 0)" using di(1) by (simp add: subscript_def)
  have e11: "item (di ! 0) 0 = Inr a" "item (di ! 0) 1 = Inr b"
    using di(2) by (auto simp: item_def a_def b_def)
  have e12: "set_cell img3 ly lx 4 (a - b) = Inr img4"
    using set_cell_ok [OF sh(3) pos(2,3), of 4] img(2) by (simp add: img4_def)
  have e13: "set_cell img4 ly lx 5 a = Inr img5"
    using set_cell_ok [OF sh(4) pos(2,3), of 5] img(2) by (simp add: img5_def)
  have e14: "set_cell img5 ly lx 6 b = Inr img6"
    using set_cell_ok [OF sh(5) pos(2,3), of 6] img(2) by (simp add: img6_def)
  have e15: "select_minimum fl d0 f0 (min_fullb s) (max_fullb s) = Inr c"
    using sel by (simp add: d0_def f0_def)
  have "treat_data_fullb s (Some d) (Some di)
           = track_window (s\<lparr>freq_list := fl, esr_line := zip fl d0, pl_image := img6\<rparr>) fl c"
    unfolding treat_data_fullb_def
    by (simp add: Let_def pos(1) fl e0 e1 e2 e3 raw_def [symmetric] e4 e5 e6 e7 e8 e9 e10 e11
        e12 e13 e14 e15 attempt_Inr del: One_nat_def)
  then show ?thesis unfolding d0_def by blast
qed

lemma select_minimum_cases:
  assumes am: "np_argmin d0 = Inr indmin" and len: "length d0 = length fl"
    and cand: "\<not> (minfield \<le> fl ! indmin \<and> fl ! indmin \<le> maxfield)
                 \<longrightarrow> (\<exists>i < length fl. minfield \<le> fl ! i \<and> fl ! i \<le> maxfield)"
  shows "\<exists>c. select_minimum fl d0 (fl ! indmin) minfield maxfield = Inr c
      \<and> (minfield \<le> fl ! indmin \<and> fl ! indmin \<le> maxfield \<longrightarrow> c = fl ! indmin)
      \<and> (\<not> (minfield \<le> fl ! indmin \<and> fl ! indmin \<le> maxfield) \<longrightarrow>
           (\<exists>j < length fl. c = fl ! j \<and> minfield \<le> fl ! j \<and> fl ! j \<le> maxfield
              \<and> (\<forall>i < length fl. minfield \<le> fl ! i \<and> fl ! i \<le> maxfield
                     \<longrightarrow> d0 ! j \<le> d0 ! i)))"
proof (cases "minfield \<le> fl ! indmin \<and> fl ! indmin \<le> maxfield")
  case True
  then show ?thesis using select_minimum_bound [OF am len] by simp
next
  case False
  then have out: "fl ! indmin \<le> minfield \<or> fl ! indmin \<ge> maxfield" by auto
  from False cand have c: "\<exists>i < length fl. minfield \<le> fl ! i \<and> fl ! i \<le> maxfield" by simp
  from select_minimum_outside [OF out len c] False show ?thesis by auto
qed

lemma treat_data_fullb_result:
  assumes ok: "fullb_pixel s d di fl indmin"
    and sel: "select_minimum fl (d ! 0) (fl ! indmin) (min_fullb s) (max_fullb s) = Inr c"
  shows "\<exists>s'. treat_data s (Some d) (Some di) = (Inr (), s')
      \<and> mw_start s' = c - (last fl - hd fl) / 2 \<and> mw_stop s' = c + (last fl - hd fl) / 2
      \<and> odmr_mw_start s' = mw_start s' \<and> odmr_mw_stop s' = mw_stop s'
      \<and> odmr_mw_step s'
           = (if resonance_frequency s - c < threshold s then mw_step s else mw_step_hf s)
      \<and> line_number s' = rint ((last fl - hd fl) / odmr_mw_step s') + 1
      \<and> freq_list s' = fl"
proof -
  from ok obtain rows cols n trows tcols where
    sh: "shaped (pl_image s) rows cols n" "8 \<le> n"
      "snd (line_position s) < rows" "fst (line_position s) < cols"
    and sh2: "shaped2 (topo_corr s) trows tcols"
      "snd (line_position s) < trows" "fst (line_position s) < tcols"
    unfolding fullb_pixel_def by blast
  have pos: "line_position s = (fst (line_position s), snd (line_position s))" by simp
  from ok have rest: "sweep_frequencies s = Inr fl" "2 \<le> length d"
      "length (d ! 0) = length fl" "d ! 1 \<noteq> []" "np_argmin (d ! 0) = Inr indmin"
      "di \<noteq> []" "2 \<le> length (di ! 0)"
    and mode: "meas_mode s \<noteq> ''quenching''" "meas_mode s \<noteq> ''isob''"
    and st: "mw_step s \<noteq> 0" "mw_step_hf s \<noteq> 0"
      "0 \<le> rint ((last fl - hd fl) / mw_step s) + 1"
      "0 \<le> rint ((last fl - hd fl) / mw_step_hf s) + 1"
    unfolding fullb_pixel_def by simp_all
  obtain img' where run: "treat_data_fullb s (Some d) (Some di)
      = track_window (s\<lparr>freq_list := fl, esr_line := zip fl (d ! 0), pl_image := img'\<rparr>) fl c"
    using treat_data_fullb_run [OF rest(1) sh(1,2) sh2(1) pos sh(3,4) sh2(2,3) rest(2-7) sel]
    by blast
  define s1 where "s1 = s\<lparr>freq_list := fl, esr_line := zip fl (d ! 0), pl_image := img'\<rparr>"
  define stp where
    "stp = (if resonance_frequency s1 - c < threshold s1 then mw_step s1 else mw_step_hf s1)"
  have stp: "stp \<noteq> 0" "0 \<le> rint ((last fl - hd fl) / stp) + 1"
    using st by (simp_all add: stp_def s1_def)
  have tw: "track_window s1 fl c =
     (Inr (), s1\<lparr>mw_start := c - (last fl - hd fl) / 2, mw_stop := c + (last fl - hd fl) / 2,
                odmr_mw_start := c - (last fl - hd fl) / 2,
                odmr_mw_stop := c + (last fl - hd fl) / 2,
                odmr_mw_step := stp,
                line_number := rint ((last fl - hd fl) / stp) + 1\<rparr>)"
    using track_window_ok [OF stp_def stp] .
  have "treat_data s (Some d) (Some di) =
     (Inr (), emit SigFinishedDataTreatment
        (s1\<lparr>mw_start := c - (last fl - hd fl) / 2, mw_stop := c + (last fl - hd fl) / 2,
                odmr_mw_start := c - (last fl - hd fl) / 2,
                odmr_mw_stop := c + (last fl - hd fl) / 2,
                odmr_mw_step := stp,
                line_number := rint ((last fl - hd fl) / stp) + 1\<rparr>))"
    using mode run tw by (simp add: treat_data_def s1_def)
  then show ?thesis
    by (simp add: emit_def stp_def s1_def)
qed

lemma rint_of_int: "rint (of_int k) = k"
  by (simp add: rint_def)

lemma sweep_frequencies_span:
  assumes sw: "sweep_frequencies s = Inr fl" and ne: "fl \<noteq> []"
  shows "last fl - hd fl = of_int (rint ((mw_stop s - mw_start s) / mw_step s)) * mw_step s"
proof -
  define n where "n = rint ((mw_stop s - mw_start s) / mw_step s)"
  define e where "e = mw_start s + of_int n * mw_step s"
  from sw have st: "mw_step s \<noteq> 0" by (auto simp: sweep_frequencies_def split: if_splits)
  from sw st have lin: "linspace (mw_start s) e (n + 1) = Inr fl"
    by (simp add: sweep_frequencies_def Let_def n_def e_def)
  show ?thesis
  proof (cases "n = 0")
    case True
    with lin have "fl = [mw_start s]" by (simp add: linspace_def)
    with True show ?thesis by (simp add: n_def [symmetric])
  next
    case False
    from lin have nn: "\<not> n + 1 < 0" by (auto simp: linspace_def split: if_splits)
    from lin False nn have fl:
      "fl = map (\<lambda>i. mw_start s + of_nat i * ((e - mw_start s) / of_int n)) [0..<nat (n + 1)]"
      by (simp add: linspace_def)
    from fl ne have pos: "0 < nat (n + 1)" by (cases "nat (n + 1)") simp_all
    with False have n1: "1 \<le> n" by simp
    have h: "hd fl = mw_start s"
      using pos unfolding fl by (simp add: hd_map upt_conv_Cons)
    have up: "[0..<nat (n + 1)] \<noteq> []" using pos by simp
    have lu: "last [0..<nat (n + 1)] = nat n" using n1 by (simp add: last_upt nat_add_distrib)
    have "last fl = mw_start s + of_nat (nat n) * ((e - mw_start s) / of_int n)"
      unfolding fl using up lu by (simp add: last_map)
    also have "\<dots> = mw_start s + of_int n * ((e - mw_start s) / of_int n)"
      using n1 by simp
    also have "\<dots> = e" using False by simp
    finally have l: "last fl = e" .
    show ?thesis using h l by (simp add: e_def n_def [symmetric])
  qed
qed

lemma whole_multiple:
  assumes "st \<noteq> (0::real)"
  shows "of_int (rint (w / st)) * st = w \<longleftrightarrow> (\<exists>k::int. w = of_int k * st)"
proof
  assume "of_int (rint (w / st)) * st = w"
  then have "w = of_int (rint (w / st)) * st" by simp
  then show "\<exists>k::int. w = of_int k * st" by blast
next
  assume "\<exists>k::int. w = of_int k * st"
  then obtain k :: int where k: "w = of_int k * st" by blast
  with assms have "w / st = of_int k" by simp
  then have "rint (w / st) = k" by (simp add: rint_of_int)
  with k show "of_int (rint (w / st)) * st = w" by simp
qed

text \<open>
  C3, as the code has it: for a full-B pixel that can be stored, \<^verbatim>\<open>treat_data\<close> returns
  and the window of the next sweep is centred on a frequency \<open>c\<close>: the detected dip
  \<open>fl ! indmin\<close> itself when it lies in \<open>[min_fullb, max_fullb]\<close> (on a bound the source
  selects again and finds the same frequency), and otherwise a swept frequency inside the
  bounds whose signal is least among the swept frequencies inside the bounds.  The window
  becomes \<open>start = c - halfSpan\<close>, \<open>stop = c + halfSpan\<close> with \<open>halfSpan\<close> half the span of
  the list just swept, and the same bounds are handed to the sweep generator.  That span
  is \<open>rint ((mw_stop - mw_start) / mw_step) * mw_step\<close>, the width of the window before the
  pixel rounded to a whole number of steps: the width of the new window is the width of
  the old one exactly when the old width is a whole multiple of the step.
\<close>

theorem fullb_window_recentred:
  assumes "fullb_pixel s d di fl indmin"
  shows "\<exists>s' c. treat_data s (Some d) (Some di) = (Inr (), s')
      \<and> (min_fullb s \<le> fl ! indmin \<and> fl ! indmin \<le> max_fullb s \<longrightarrow> c = fl ! indmin)
      \<and> (\<not> (min_fullb s \<le> fl ! indmin \<and> fl ! indmin \<le> max_fullb s) \<longrightarrow>
           (\<exists>j < length fl. c = fl ! j \<and> min_fullb s \<le> fl ! j \<and> fl ! j \<le> max_fullb s
              \<and> (\<forall>i < length fl. min_fullb s \<le> fl ! i \<and> fl ! i \<le> max_fullb s
                     \<longrightarrow> d ! 0 ! j \<le> d ! 0 ! i)))
      \<and> mw_start s' = c - (last fl - hd fl) / 2
      \<and> mw_stop s' = c + (last fl - hd fl) / 2
      \<and> last fl - hd fl = of_int (rint ((mw_stop s - mw_start s) / mw_step s)) * mw_step s
      \<and> mw_stop s' - mw_start s'
           = of_int (rint ((mw_stop s - mw_start s) / mw_step s)) * mw_step s
      \<and> (mw_stop s' - mw_start s' = mw_stop s - mw_start s
           \<longleftrightarrow> (\<exists>k::int. mw_stop s - mw_start s = of_int k * mw_step s))
      \<and> odmr_mw_start s' = mw_start s' \<and> odmr_mw_stop s' = mw_stop s'"
proof -
  from assms have am: "np_argmin (d ! 0) = Inr indmin" and len: "length (d ! 0) = length fl"
    and cand: "\<not> (min_fullb s \<le> fl ! indmin \<and> fl ! indmin \<le> max_fullb s)
          \<longrightarrow> (\<exists>i < length fl. min_fullb s \<le> fl ! i \<and> fl ! i \<le> max_fullb s)"
    and sw: "sweep_frequencies s = Inr fl" and st: "mw_step s \<noteq> 0"
    unfolding fullb_pixel_def by simp_all
  from np_argmin_props(1) [OF am] len have ne: "fl \<noteq> []" by auto
  from select_minimum_cases [OF am len cand] obtain c where
    c: "select_minimum fl (d ! 0) (fl ! indmin) (min_fullb s) (max_fullb s) = Inr c"
    and c1: "min_fullb s \<le> fl ! indmin \<and> fl ! indmin \<le> max_fullb s \<longrightarrow> c = fl ! indmin"
    and c2: "\<not> (min_fullb s \<le> fl ! indmin \<and> fl ! indmin \<le> max_fullb s) \<longrightarrow>
           (\<exists>j < length fl. c = fl ! j \<and> min_fullb s \<le> fl ! j \<and> fl ! j \<le> max_fullb s
              \<and> (\<forall>i < length fl. min_fullb s \<le> fl ! i \<and> fl ! i \<le> max_fullb s
                     \<longrightarrow> d ! 0 ! j \<le> d ! 0 ! i))"
    by blast
  from treat_data_fullb_result [OF assms c] obtain s' where
    s': "treat_data s (Some d) (Some di) = (Inr (), s')"
      "mw_start s' = c - (last fl - hd fl) / 2" "mw_stop s' = c + (last fl - hd fl) / 2"
      "odmr_mw_start s' = mw_start s'" "odmr_mw_stop s' = mw_stop s'"
    by blast
  have sp: "last fl - hd fl = of_int (rint ((mw_stop s - mw_start s) / mw_step s)) * mw_step s"
    using sweep_frequencies_span [OF sw ne] .
  have w: "mw_stop s' - mw_start s' = last fl - hd fl" by (simp add: s'(2,3))
  have w2: "mw_stop s' - mw_start s'
      = of_int (rint ((mw_stop s - mw_start s) / mw_step s)) * mw_step s"
    using w sp by simp
  have w3: "mw_stop s' - mw_start s' = mw_stop s - mw_start s
           \<longleftrightarrow> (\<exists>k::int. mw_stop s - mw_start s = of_int k * mw_step s)"
    unfolding w2 using whole_multiple [OF st] .
  show ?thesis
    using s' c1 c2 sp w2 w3 by blast
qed

text \<open>
  C4, as the code has it: for a full-B pixel that can be stored, the step handed to the
  next sweep is the fine step \<open>mw_step\<close> exactly when the signed difference
  \<open>resonance_frequency - c\<close> is below the threshold, \<open>c\<close> being the selected dip, and the
  coarse step \<open>mw_step_hf\<close> otherwise.
\<close>

theorem fullb_step_choice:
  assumes "fullb_pixel s d di fl indmin"
  shows "\<exists>s' c. treat_data s (Some d) (Some di) = (Inr (), s')
      \<and> select_minimum fl (d ! 0) (fl ! indmin) (min_fullb s) (max_fullb s) = Inr c
      \<and> odmr_mw_step s'
           = (if resonance_frequency s - c < threshold s then mw_step s else mw_step_hf s)"
proof -
  from assms have am: "np_argmin (d ! 0) = Inr indmin" and len: "length (d ! 0) = length fl"
    and cand: "\<not> (min_fullb s \<le> fl ! indmin \<and> fl ! indmin \<le> max_fullb s)
          \<longrightarrow> (\<exists>i < length fl. min_fullb s \<le> fl ! i \<and> fl ! i \<le> max_fullb s)"
    unfolding fullb_pixel_def by simp_all
  from select_minimum_cases [OF am len cand] obtain c where
    c: "select_minimum fl (d ! 0) (fl ! indmin) (min_fullb s) (max_fullb s) = Inr c"
    by blast
  from treat_data_fullb_result [OF assms c] c show ?thesis by blast
qed

lemma sweep_fullb_state: "sweep_frequencies fullb_state = Inr [100, 110, 120]"
  by (simp add: sweep_frequencies_def fullb_state_def small_state_def init_state_def
      rint_def linspace_def Let_def upt_conv_Cons)

lemma argmin_example: "np_argmin [5, 1, 7 :: real] = Inr 1"
  by (simp add: np_argmin_def)

lemma fullb_pixel_example:
  "fullb_pixel fullb_state [[5, 1, 7], [1, 1, 1]] [[3, 2]] [100, 110, 120] 1"
  unfolding fullb_pixel_def
  apply (intro conjI)
  apply (simp_all add: sweep_fullb_state argmin_example)
  apply (simp_all add: fullb_state_def small_state_def init_state_def rint_def)
  apply (rule exI [of _ 2], rule exI [of _ 2], rule exI [of _ 8], simp add: shaped_def)
  apply (rule exI [of _ 2], rule exI [of _ 2], simp add: shaped2_def)
  done


theorem fullb_step_choice_witness:
  "fullb_pixel fullb_state [[5, 1, 7], [1, 1, 1]] [[3, 2]] [100, 110, 120] 1
   \<and> (\<exists>s' c. treat_data fullb_state (Some [[5, 1, 7], [1, 1, 1]]) (Some [[3, 2]]) = (Inr (), s')
        \<and> select_minimum [100, 110, 120] ([[5, 1, 7], [1, 1, 1]] ! 0) ([100, 110, 120] ! 1)
             (min_fullb fullb_state) (max_fullb fullb_state) = Inr c
        \<and> odmr_mw_step s'
           = (if resonance_frequency fullb_state - c < threshold fullb_state
              then mw_step fullb_state else mw_step_hf fullb_state))"
  using fullb_step_choice [OF fullb_pixel_example] fullb_pixel_example by simp

text \<open>
  C4 as it is written compares the absolute difference with the threshold.  With a
  reference frequency of 10, a threshold of 5 and a dip found at 110, the absolute
  difference is 100, not below the threshold, and the source still selects the fine
  step 10 and not the coarse step 20, because the signed difference is negative.
\<close>

theorem fullb_step_not_absolute:
  "\<not> \<bar>resonance_frequency fullb_state - 110\<bar> < threshold fullb_state
   \<and> select_minimum [100, 110, 120] [5, 1, 7] 110 (min_fullb fullb_state) (max_fullb fullb_state)
       = Inr 110
   \<and> fst (treat_data fullb_state (Some [[5, 1, 7], [1, 1, 1]]) (Some [[3, 2]])) = Inr ()
   \<and> odmr_mw_step (snd (treat_data fullb_state (Some [[5, 1, 7], [1, 1, 1]]) (Some [[3, 2]])))
       = mw_step fullb_state
   \<and> mw_step fullb_state = 10 \<and> mw_step_hf fullb_state = 20"
proof -
  have v: "min_fullb fullb_state = 0" "max_fullb fullb_state = 1000"
    "resonance_frequency fullb_state = 10" "threshold fullb_state = 5"
    "mw_step fullb_state = 10" "mw_step_hf fullb_state = 20"
    by (simp_all add: fullb_state_def small_state_def init_state_def)
  have sel: "select_minimum [100, 110, 120] ([[5, 1, 7], [1, 1, 1]] ! 0) ([100, 110, 120] ! 1)
      (min_fullb fullb_state) (max_fullb fullb_state) = Inr 110"
    by (simp add: v select_minimum_inside)
  from treat_data_fullb_result [OF fullb_pixel_example sel] obtain s' where
    s': "treat_data fullb_state (Some [[5, 1, 7], [1, 1, 1]]) (Some [[3, 2]]) = (Inr (), s')"
      "odmr_mw_step s' = (if resonance_frequency fullb_state - 110 < threshold fullb_state
              then mw_step fullb_state else mw_step_hf fullb_state)"
    by blast
  show ?thesis using sel s' by (simp add: v)
qed

lemma fullb_pixel_offband:
  "fullb_pixel (fullb_state\<lparr>min_fullb := 105\<rparr>) [[1, 5, 7], [1, 1, 1]] [[3, 2]]
     [100, 110, 120] 0"
proof -
  have sw: "sweep_frequencies (fullb_state\<lparr>min_fullb := 105\<rparr>) = Inr [100, 110, 120]"
    by (simp add: sweep_frequencies_def fullb_state_def small_state_def init_state_def
        rint_def linspace_def Let_def upt_conv_Cons)
  have am: "np_argmin [1, 5, 7 :: real] = Inr 0" by (simp add: np_argmin_def)
  show ?thesis
    unfolding fullb_pixel_def
    apply (intro conjI)
    apply (simp_all add: sw am)
    apply (simp_all add: fullb_state_def small_state_def init_state_def rint_def)
    apply (rule exI [of _ 2], rule exI [of _ 2], rule exI [of _ 8], simp add: shaped_def)
    apply (rule exI [of _ 2], rule exI [of _ 2], simp add: shaped2_def)
    apply (rule exI [of _ 1], simp)
    done
qed

theorem fullb_window_recentred_witness:
  "fullb_pixel (fullb_state\<lparr>min_fullb := 105\<rparr>) [[1, 5, 7], [1, 1, 1]] [[3, 2]]
     [100, 110, 120] 0
   \<and> \<not> (min_fullb (fullb_state\<lparr>min_fullb := 105\<rparr>) \<le> [100, 110, 120] ! 0)
   \<and> (\<exists>s'. treat_data (fullb_state\<lparr>min_fullb := 105\<rparr>)
               (Some [[1, 5, 7], [1, 1, 1]]) (Some [[3, 2]]) = (Inr (), s')
          \<and> mw_stop s' - mw_start s' = 20
          \<and> mw_stop s' - mw_start s'
               = mw_stop (fullb_state\<lparr>min_fullb := 105\<rparr>)
                 - mw_start (fullb_state\<lparr>min_fullb := 105\<rparr>)
          \<and> odmr_mw_start s' = mw_start s' \<and> odmr_mw_stop s' = mw_stop s')"
  using fullb_window_recentred [OF fullb_pixel_offband] fullb_pixel_offband
  by (auto simp: fullb_state_def small_state_def init_state_def)

lemma fullb_pixel_uneven:
  "fullb_pixel (fullb_state\<lparr>mw_stop := 124\<rparr>) [[5, 1, 7], [1, 1, 1]] [[3, 2]]
     [100, 110, 120] 1"
proof -
  have sw: "sweep_frequencies (fullb_state\<lparr>mw_stop := 124\<rparr>) = Inr [100, 110, 120]"
    by (simp add: sweep_frequencies_def fullb_state_def small_state_def init_state_def
        rint_def linspace_def Let_def upt_conv_Cons)
  show ?thesis
    unfolding fullb_pixel_def
    apply (intro conjI)
    apply (simp_all add: sw argmin_example)
    apply (simp_all add: fullb_state_def small_state_def init_state_def rint_def)
    apply (rule exI [of _ 2], rule exI [of _ 2], rule exI [of _ 8], simp add: shaped_def)
    apply (rule exI [of _ 2], rule exI [of _ 2], simp add: shaped2_def)
    done
qed

text \<open>
  C3 as it is written says that the width of the window is preserved.  With a window
  from 100 to 124 swept in steps of 10, the list of the sweep is 100, 110, 120; a dip
  found at 110 gives the next window 100 to 120, of width 20 and not 24.
\<close>

theorem fullb_window_width_changes:
  "mw_start (fullb_state\<lparr>mw_stop := 124\<rparr>) = 100
   \<and> mw_stop (fullb_state\<lparr>mw_stop := 124\<rparr>) = 124
   \<and> mw_step (fullb_state\<lparr>mw_stop := 124\<rparr>) = 10
   \<and> sweep_frequencies (fullb_state\<lparr>mw_stop := 124\<rparr>) = Inr [100, 110, 120]
   \<and> fst (treat_data (fullb_state\<lparr>mw_stop := 124\<rparr>)
            (Some [[5, 1, 7], [1, 1, 1]]) (Some [[3, 2]])) = Inr ()
   \<and> mw_start (snd (treat_data (fullb_state\<lparr>mw_stop := 124\<rparr>)
            (Some [[5, 1, 7], [1, 1, 1]]) (Some [[3, 2]]))) = 100
   \<and> mw_stop (snd (treat_data (fullb_state\<lparr>mw_stop := 124\<rparr>)
            (Some [[5, 1, 7], [1, 1, 1]]) (Some [[3, 2]]))) = 120
   \<and> mw_stop (snd (treat_data (fullb_state\<lparr>mw_stop := 124\<rparr>)
            (Some [[5, 1, 7], [1, 1, 1]]) (Some [[3, 2]])))
       - mw_start (snd (treat_data (fullb_state\<lparr>mw_stop := 124\<rparr>)
            (Some [[5, 1, 7], [1, 1, 1]]) (Some [[3, 2]])))
     \<noteq> mw_stop (fullb_state\<lparr>mw_stop := 124\<rparr>) - mw_start (fullb_state\<lparr>mw_stop := 124\<rparr>)"
proof -
  define s where "s = fullb_state\<lparr>mw_stop := 124\<rparr>"
  have v: "min_fullb s = 0" "max_fullb s = 1000" "mw_start s = 100" "mw_stop s = 124"
    "mw_step s = 10"
    by (simp_all add: s_def fullb_state_def small_state_def init_state_def)
  have px: "fullb_pixel s [[5, 1, 7], [1, 1, 1]] [[3, 2]] [100, 110, 120] 1"
    unfolding s_def by (rule fullb_pixel_uneven)
  then have sw: "sweep_frequencies s = Inr [100, 110, 120]" by (simp add: fullb_pixel_def)
  have sel: "select_minimum [100, 110, 120] ([[5, 1, 7], [1, 1, 1]] ! 0) ([100, 110, 120] ! 1)
      (min_fullb s) (max_fullb s) = Inr 110"
    by (simp add: v select_minimum_inside)
  from treat_data_fullb_result [OF px sel] obtain s' where
    s': "treat_data s (Some [[5, 1, 7], [1, 1, 1]]) (Some [[3, 2]]) = (Inr (), s')"
      "mw_start s' = 110 - (last [100, 110, 120 :: real] - hd [100, 110, 120]) / 2"
      "mw_stop s' = 110 + (last [100, 110, 120 :: real] - hd [100, 110, 120]) / 2"
    by blast
  show ?thesis unfolding s_def [symmetric] using s' sw by (simp add: v)
qed

section \<open>Positions are never overwritten\<close>

lemma map_update_same:
  assumes "c < length xs \<Longrightarrow> f y = f (xs ! c)"
  shows "map f (xs[c := y]) = map f xs"
proof (rule nth_equalityI)
  show "length (map f (xs[c := y])) = length (map f xs)" by simp
next
  fix i assume "i < length (map f (xs[c := y]))"
  then have i: "i < length xs" by simp
  show "map f (xs[c := y]) ! i = map f xs ! i"
  proof (cases "i = c")
    case True
    with i assms show ?thesis by simp
  next
    case False
    with i show ?thesis by simp
  qed
qed

lemma positions_put: "2 \<le> k \<Longrightarrow> positions (put img r c k v) = positions img"
proof -
  assume k: "2 \<le> k"
  have cell: "take 2 ((img ! r ! c)[k := v]) = take 2 (img ! r ! c)"
    using k by simp
  have row: "map (take 2) ((img ! r)[c := (img ! r ! c)[k := v]]) = map (take 2) (img ! r)"
    by (rule map_update_same) (simp add: cell)
  show ?thesis
    unfolding positions_def put_def
    by (rule map_update_same) (simp add: row)
qed

lemma positions_put_cells:
  "2 \<le> k \<Longrightarrow> positions (put_cells img cells k vs) = positions img"
proof -
  assume k: "2 \<le> k"
  have "positions (fold (\<lambda>(rc, v) im. put im (fst rc) (snd rc) k v) zs img) = positions img"
    for zs
    by (induction zs arbitrary: img) (auto simp: positions_put k)
  then show ?thesis by (simp add: put_cells_def)
qed

lemma positions_set_cell:
  "set_cell img r c k v = Inr img' \<Longrightarrow> 2 \<le> k \<Longrightarrow> positions img' = positions img"
  by (auto simp: set_cell_def positions_put split: if_splits)

lemma positions_set_slice:
  "set_slice h img ly lx k vs = Inr img' \<Longrightarrow> 2 \<le> k \<Longrightarrow> positions img' = positions img"
  by (auto simp: set_slice_def positions_put_cells split: if_splits sum.splits)

lemma positions_set_chan_slice:
  assumes "set_chan_slice img r c k0 k1 vs = Inr img'" "2 \<le> k0"
  shows "positions img' = positions img"
proof -
  have "positions (fold (\<lambda>(k, v) im. put im r c k v) zs im0) = positions im0"
    if "\<forall>z \<in> set zs. 2 \<le> fst z" for zs im0
    using that by (induction zs arbitrary: im0) (auto simp: positions_put)
  moreover have "\<forall>z \<in> set (zip [k0..<m] ws). 2 \<le> fst z" for m and ws :: "real list"
    using assms(2) by (auto dest!: set_zip_leftD)
  ultimately show ?thesis
    using assms(1) by (auto simp: set_chan_slice_def split: if_splits sum.splits)
qed

lemma positions_map_cells:
  assumes "\<And>r c cell. take 2 (f r c cell) = take 2 cell"
  shows "positions (map_cells img f) = positions img"
proof -
  have "map (take 2) (map (\<lambda>c. f r c (row ! c)) [0..<length row]) = map (take 2) row" for r row
    by (rule nth_equalityI) (simp_all add: assms)
  then have "map (\<lambda>r. map (take 2) (map (\<lambda>c. f r c (img ! r ! c)) [0..<length (img ! r)]))
               [0..<length img] = map (map (take 2)) img"
    by (intro nth_equalityI) simp_all
  then show ?thesis by (simp add: positions_def map_cells_def comp_def)
qed

lemma attempt_keeps:
  assumes "P s" and "\<And>x. v = Inr x \<Longrightarrow> P (snd (k x))"
  shows "P (snd (attempt v s k))"
  using assms by (cases v) (simp_all add: attempt_def)

lemma attempt_positions:
  assumes "positions (pl_image s1) = A"
    and "\<And>x. v = Inr x \<Longrightarrow> positions (pl_image (snd (k x))) = A"
  shows "positions (pl_image (snd (attempt v s1 k))) = A"
  using assms by (cases v) (simp_all add: attempt_def)

lemma attempt_pl_image:
  assumes "pl_image s1 = A"
    and "\<And>x. v = Inr x \<Longrightarrow> pl_image (snd (k x)) = A"
  shows "pl_image (snd (attempt v s1 k)) = A"
  using assms by (cases v) (simp_all add: attempt_def)

lemma treat_data_quenching_positions:
  "positions (pl_image (snd (treat_data_quenching s data))) = positions (pl_image s)"
  unfolding treat_data_quenching_def Let_def
  by (intro attempt_positions) (auto dest!: positions_set_slice)

lemma treat_data_isob_positions:
  "positions (pl_image (snd (treat_data_isob s data))) = positions (pl_image s)"
  unfolding treat_data_isob_def Let_def
  by (intro attempt_positions) (auto dest!: positions_set_cell positions_set_chan_slice)

lemma track_window_pl_image: "pl_image (snd (track_window s fl c)) = pl_image s"
  by (simp add: track_window_def Let_def)

lemma treat_data_fullb_positions:
  "positions (pl_image (snd (treat_data_fullb s data data_isob))) = positions (pl_image s)"
  unfolding treat_data_fullb_def Let_def
  by (intro attempt_positions) (auto simp: track_window_pl_image dest!: positions_set_cell)

lemma treat_data_positions:
  "positions (pl_image (snd (treat_data s data data_isob))) = positions (pl_image s)"
proof -
  have "pl_image (snd (case p of (Inl e, s') \<Rightarrow> (Inl e, s')
                          | (Inr u, s') \<Rightarrow> (Inr (), emit SigFinishedDataTreatment s')))
        = pl_image (snd p)" for p :: "unit outcome"
    by (cases p; cases "fst p") (simp_all add: emit_def)
  then show ?thesis
    unfolding treat_data_def
    by (simp add: treat_data_quenching_positions treat_data_isob_positions
        treat_data_fullb_positions)
qed

lemma pl_image_emit [simp]: "pl_image (emit sg s) = pl_image s"
  by (simp add: emit_def)

lemma pl_image_called [simp]: "pl_image (called s) = pl_image s"
  by (simp add: called_def)

lemma accumulate_pl_image: "pl_image (snd (accumulate hw k acc s)) = pl_image s"
  by (induction k arbitrary: acc s) (auto split: sum.splits)

lemma scan_odmr_line_pl_image: "pl_image (snd (scan_odmr_line hw s)) = pl_image s"
proof (cases "odmr_counts hw (hw_calls s) (line_number s)")
  case (Inl e)
  then show ?thesis by (simp add: scan_odmr_line_def)
next
  case (Inr c0)
  define k where "k = (if number_sweeps s > 1 then nat (number_sweeps s - 1) else 0)"
  obtain r s1 where acc: "accumulate hw k c0 (called s) = (r, s1)" by (cases "accumulate hw k c0 (called s)")
  then have s1: "pl_image s1 = pl_image s"
    using accumulate_pl_image [of hw k c0 "called s"] by simp
  show ?thesis
    using Inr acc s1 unfolding scan_odmr_line_def k_def [symmetric]
    by (cases r) (auto split: sum.splits)
qed

lemma set_sweep_parameters_fullb_pl_image:
  "pl_image (snd (set_sweep_parameters_fullb hw s a b c d e f g h)) = pl_image s"
  by (simp add: set_sweep_parameters_fullb_def Let_def)

lemma fullb_isob_read_pl_image: "pl_image (snd (fullb_isob_read hw s data)) = pl_image s"
proof -
  define s4 where "s4 = s\<lparr>line_number := 2, odmr_mw_stop := freq2 s, odmr_mw_start := freq1 s,
                            odmr_mw_step := freq2 s - freq1 s\<rparr>"
  obtain r s5 where sc: "scan_odmr_line hw s4 = (r, s5)" by (cases "scan_odmr_line hw s4")
  then have "pl_image s5 = pl_image s"
    using scan_odmr_line_pl_image [of hw s4] by (simp add: s4_def)
  then show ?thesis
    using sc unfolding fullb_isob_read_def Let_def
    by (cases r) (simp_all add: s4_def)
qed

lemma scan_pixel_pl_image: "pl_image (snd (scan_pixel hw s)) = pl_image s"
proof -
  consider (q) "meas_mode s = ''quenching''" | (i) "meas_mode s \<noteq> ''quenching''" "meas_mode s = ''isob''"
    | (f) "meas_mode s \<noteq> ''quenching''" "meas_mode s \<noteq> ''isob''" by blast
  then show ?thesis
  proof cases
    case q
    then show ?thesis
      unfolding scan_pixel_def Let_def
      by (simp, intro attempt_pl_image) simp_all
  next
    case i
    obtain r s1 where sc: "scan_odmr_line hw s = (r, s1)" by (cases "scan_odmr_line hw s")
    then have "pl_image s1 = pl_image s" using scan_odmr_line_pl_image [of hw s] by simp
    then show ?thesis
      using i sc unfolding scan_pixel_def Let_def by (cases r) simp_all
  next
    case f
    show ?thesis
    proof (cases "odmr_mw_step s = 0")
      case True
      then show ?thesis using f by (simp add: scan_pixel_def)
    next
      case False
      define s1 where "s1 = s\<lparr>line_number :=
                          rint ((odmr_mw_stop s - odmr_mw_start s) / odmr_mw_step s) + 1\<rparr>"
      obtain r s2 where sc: "scan_odmr_line hw s1 = (r, s2)" by (cases "scan_odmr_line hw s1")
      then have s2: "pl_image s2 = pl_image s"
        using scan_odmr_line_pl_image [of hw s1] by (simp add: s1_def)
      have retry: "pl_image (snd (case set_sweep_parameters_fullb hw s2 a b c d e g h i of
                              (Inl e, s3) \<Rightarrow> (Inl e, s3)
                            | (Inr u, s3) \<Rightarrow>
                                (case scan_odmr_line hw s3 of
                                   (Inl e, s4) \<Rightarrow> (Inl e, s4)
                                 | (Inr data', s4) \<Rightarrow> fullb_isob_read hw s4 data'))) = pl_image s"
        for a b c d e g h i
      proof -
        obtain r3 s3 where p: "set_sweep_parameters_fullb hw s2 a b c d e g h i = (r3, s3)"
          by (cases "set_sweep_parameters_fullb hw s2 a b c d e g h i")
        then have s3: "pl_image s3 = pl_image s"
          using set_sweep_parameters_fullb_pl_image [of hw s2 a b c d e g h i] s2 by simp
        obtain r4 s4 where q: "scan_odmr_line hw s3 = (r4, s4)" by (cases "scan_odmr_line hw s3")
        then have s4: "pl_image s4 = pl_image s"
          using scan_odmr_line_pl_image [of hw s3] s3 by simp
        show ?thesis
          using p q s3 s4 fullb_isob_read_pl_image [of hw s4]
          by (cases r3; cases r4) simp_all
      qed
      have "pl_image (snd (case r of Inl e \<Rightarrow> (Inl e, s2)
          | Inr data \<Rightarrow>
                      attempt (subscript data 0) s2 (\<lambda>row0.
                        if length row0 = 2 then
                          attempt (positional_call 8
                                     [mw_start s2, mw_stop s2, min_fullb s2, max_fullb s2,
                                      mw_step s2, mw_step_hf s2, threshold s2]) s2 (\<lambda>args.
                            case set_sweep_parameters_fullb hw s2 (args ! 0) (args ! 1)
                                   (args ! 2) (args ! 3) (args ! 4) (args ! 5)
                                   \<lfloor>args ! 6\<rfloor> (args ! 7) of
                              (Inl e, s3) \<Rightarrow> (Inl e, s3)
                            | (Inr _, s3) \<Rightarrow>
                                (case scan_odmr_line hw s3 of
                                   (Inl e, s4) \<Rightarrow> (Inl e, s4)
                                 | (Inr data', s4) \<Rightarrow> fullb_isob_read hw s4 data'))
                        else fullb_isob_read hw s2 data))) = pl_image s"
      proof (cases r)
        case (Inl e)
        then show ?thesis by (simp add: s2)
      next
        case (Inr data)
        show ?thesis
          unfolding Inr sum.case
          by (intro attempt_pl_image)
             (auto simp: s2 retry fullb_isob_read_pl_image intro!: attempt_pl_image)
      qed
      then show ?thesis
        using f False sc unfolding scan_pixel_def Let_def s1_def [symmetric]
        by simp
    qed
  qed
qed

lemma shift_indices_pl_image: "pl_image (snd (shift_indices s)) = pl_image s"
proof (cases "pl_image s = []")
  case True
  then show ?thesis by (simp add: shift_indices_def)
next
  case False
  define s1 where "s1 = (if snd (line_position s) = nrows (pl_image s)
                   then s\<lparr>line_position := (fst (line_position s), snd (line_position s) - 1)\<rparr>
                   else s)"
  define s2 where "s2 = (if fst (line_position s1) = ncols (pl_image s1)
                   then s1\<lparr>line_position := (fst (line_position s1) - 1, snd (line_position s1))\<rparr>
                   else s1)"
  have s2: "pl_image s2 = pl_image s" by (simp add: s2_def s1_def)
  have "pl_image (snd (attempt (get_cell (pl_image s2) ly lx 0) s2 (\<lambda>x.
            let s3 = s2\<lparr>current_position := (x, snd (current_position s2))\<rparr>
            in attempt (get_cell (pl_image s3) ly lx 1) s3 (\<lambda>y.
               (Inr (), s3\<lparr>current_position := (fst (current_position s3), y)\<rparr>))))) = pl_image s"
    for lx ly
    unfolding Let_def by (intro attempt_pl_image) (simp_all add: s2)
  then show ?thesis
    using False unfolding shift_indices_def Let_def s1_def [symmetric] s2_def [symmetric]
    by simp
qed

lemma stop_scanning_pl_image: "pl_image (snd (stop_scanning s final)) = pl_image s"
proof -
  define s1 where "s1 = (if locked s then s\<lparr>stopRequested := True\<rparr> else s)"
  obtain r s2 where sh: "shift_indices s1 = (r, s2)" by (cases "shift_indices s1")
  then have "pl_image s2 = pl_image s"
    using shift_indices_pl_image [of s1] by (simp add: s1_def)
  then show ?thesis
    using sh unfolding stop_scanning_def Let_def s1_def [symmetric]
    by (cases r) simp_all
qed

lemma return_h_pl_image: "pl_image (snd (return_h hw s)) = pl_image s"
  unfolding return_h_def Let_def
  by (simp, intro impI attempt_pl_image) (auto intro!: attempt_pl_image)

lemma return_v_pl_image: "pl_image (snd (return_v hw s)) = pl_image s"
  unfolding return_v_def Let_def
  by (simp, intro impI attempt_pl_image) (auto intro!: attempt_pl_image)

lemma pixel_end_failed_pl_image: "pl_image (snd (pixel_end_failed s)) = pl_image s"
proof -
  obtain r s1 where st: "stop_scanning s False = (r, s1)" by (cases "stop_scanning s False")
  then have "pl_image s1 = pl_image s" using stop_scanning_pl_image [of s False] by simp
  then show ?thesis using st by (cases r) (simp_all add: pixel_end_failed_def)
qed

lemma scan_line_failed_pl_image: "pl_image (snd (scan_line_failed s)) = pl_image s"
proof -
  obtain r s1 where st: "stop_scanning s False = (r, s1)" by (cases "stop_scanning s False")
  then have "pl_image s1 = pl_image s" using stop_scanning_pl_image [of s False] by simp
  then show ?thesis using st by (cases r) (simp_all add: scan_line_failed_def)
qed

lemma end_of_scan_pl_image:
  "pl_image (snd (case stop_scanning s4 True of
                       (Inl e, s5) \<Rightarrow> pixel_end_failed s5
                     | (Inr u, s5) \<Rightarrow> (Inr 0, emit SigNextLine (s5\<lparr>line_position := (0, 0)\<rparr>))))
     = pl_image s4"
proof -
  obtain r s5 where st: "stop_scanning s4 True = (r, s5)" by (cases "stop_scanning s4 True")
  then have "pl_image s5 = pl_image s4" using stop_scanning_pl_image [of s4 True] by simp
  then show ?thesis using st pixel_end_failed_pl_image [of s5] by (cases r) simp_all
qed

lemma retrace_h_pl_image:
  "pl_image (snd (case return_h hw s4 of
                       (Inl e, s5) \<Rightarrow> pixel_end_failed s5
                     | (Inr u, s5) \<Rightarrow> (Inr 0, emit SigNextLine s5))) = pl_image s4"
proof -
  obtain r s5 where st: "return_h hw s4 = (r, s5)" by (cases "return_h hw s4")
  then have "pl_image s5 = pl_image s4" using return_h_pl_image [of hw s4] by simp
  then show ?thesis using st pixel_end_failed_pl_image [of s5] by (cases r) simp_all
qed

lemma retrace_v_pl_image:
  "pl_image (snd (case return_v hw s4 of
                       (Inl e, s5) \<Rightarrow> pixel_end_failed s5
                     | (Inr u, s5) \<Rightarrow> (Inr 0, emit SigNextLine s5))) = pl_image s4"
proof -
  obtain r s5 where st: "return_v hw s4 = (r, s5)" by (cases "return_v hw s4")
  then have "pl_image s5 = pl_image s4" using return_v_pl_image [of hw s4] by simp
  then show ?thesis using st pixel_end_failed_pl_image [of s5] by (cases r) simp_all
qed

lemma hpix_end_pl_image: "pl_image (snd (hpix_end hw s)) = pl_image s"
  unfolding hpix_end_def Let_def
  by (simp add: pixel_end_failed_pl_image end_of_scan_pl_image retrace_h_pl_image)

lemma vpix_end_pl_image: "pl_image (snd (vpix_end hw s)) = pl_image s"
  unfolding vpix_end_def Let_def
  by (simp add: pixel_end_failed_pl_image end_of_scan_pl_image retrace_v_pl_image)

lemma reset_position_pl_image: "pl_image (snd (reset_position hw s)) = pl_image s"
  unfolding reset_position_def Let_def
  by (simp split: sum.splits)

lemma move_pix_pl_image: "pl_image (snd (move_pix hw s)) = pl_image s"
  unfolding move_pix_def Let_def
  by (intro attempt_pl_image) simp_all

lemma scan_line_move_pl_image: "pl_image (snd (scan_line_move hw s)) = pl_image s"
proof -
  obtain r s1 where mv: "move_pix hw s = (r, s1)" by (cases "move_pix hw s")
  then have "pl_image s1 = pl_image s" using move_pix_pl_image [of hw s] by simp
  then show ?thesis
    using mv scan_line_failed_pl_image [of s1]
    by (cases r) (simp_all add: scan_line_move_def)
qed

lemma scan_line_slot_pl_image: "pl_image (snd (scan_line_slot hw s)) = pl_image s"
proof (cases "stopRequested s")
  case True
  then show ?thesis by (simp add: scan_line_slot_def Let_def emit_def kill_scanner_def)
next
  case False
  define s0 where "s0 = emit SigUpdateRemTime s"
  obtain r s1 where rp: "reset_position hw s0 = (r, s1)" by (cases "reset_position hw s0")
  then have s1: "pl_image s1 = pl_image s"
    using reset_position_pl_image [of hw s0] by (simp add: s0_def)
  obtain r2 s2 where st: "stop_scanning s1 False = (r2, s2)" by (cases "stop_scanning s1 False")
  then have s2: "pl_image s2 = pl_image s"
    using stop_scanning_pl_image [of s1 False] s1 by simp
  have nr: "\<not> stopRequested s0" using False by (simp add: s0_def emit_def)
  show ?thesis
    using nr rp st s1 s2 scan_line_failed_pl_image [of s2]
      scan_line_move_pl_image [of hw "emit SigNextLine s2"] scan_line_move_pl_image [of hw s1]
    unfolding scan_line_slot_def Let_def s0_def [symmetric]
    by (cases r2) simp_all
qed

lemma subtract_plane_positions:
  "subtract_plane img plane = Inr img' \<Longrightarrow> positions img' = positions img"
  by (auto simp: subtract_plane_def positions_map_cells split: if_splits)

lemma correct_topo_positions:
  "positions (pl_image (snd (correct_topo hw s f))) = positions (pl_image s)"
  unfolding correct_topo_def Let_def
  by (simp, intro impI attempt_positions)
     (auto simp: positions_map_cells dest!: subtract_plane_positions)

lemma dispatch_positions:
  "positions (pl_image (dispatch hw sg s)) = positions (pl_image s)"
  by (cases sg)
     (simp_all add: dispatch_def scan_line_slot_pl_image scan_pixel_pl_image treat_data_positions
        move_after_scan_pixel_def hpix_end_pl_image vpix_end_pl_image)

lemma apply_op_positions:
  "positions (pl_image (apply_op hw op s)) = positions (pl_image s)"
  by (cases op) (simp_all add: apply_op_def dispatch_positions correct_topo_positions)

lemma fold_apply_op_positions:
  "positions (pl_image (fold (apply_op hw) ops s)) = positions (pl_image s)"
  by (induction ops arbitrary: s) (simp_all add: apply_op_positions)

lemma run_positions:
  "positions (pl_image (snd (run n hw pending s))) = positions (pl_image s)"
proof (induction n hw pending s rule: run.induct)
  case (3 n hw sg pending s)
  then show ?case by (simp add: Let_def dispatch_positions)
qed simp_all

lemma take2_cell:
  "2 \<le> n \<Longrightarrow> take 2 ((replicate n (0::real))[0 := a, Suc 0 := b]) = [a, b]"
  by (cases n; cases "n - 1") (simp_all add: numeral_2_eq_2)

lemma allocate_image_positions:
  assumes "allocate_image s n = (Inr 0, s')"
  shows "positions (pl_image s') = map (\<lambda>y. map (\<lambda>x. [x, y]) (grid_X s)) (grid_Y s)"
    and "grid_X s' = grid_X s" and "grid_Y s' = grid_Y s"
proof -
  from assms have n: "2 \<le> n"
    by (auto simp: allocate_image_def Let_def split: if_splits)
  with assms have s': "s' = s\<lparr>pl_image :=
        set_channel (set_channel (zero_image (length (grid_Y s)) (length (grid_X s)) n) 0
           (\<lambda>r c. grid_X s ! c)) 1 (\<lambda>r c. grid_Y s ! r),
      topo_corr := replicate (length (grid_Y s)) (replicate (length (grid_X s)) 0)\<rparr>"
    by (auto simp: allocate_image_def Let_def split: if_splits)
  show "grid_X s' = grid_X s" "grid_Y s' = grid_Y s" by (simp_all add: s')
  have "map (map (take 2))
          (set_channel (set_channel (zero_image (length (grid_Y s)) (length (grid_X s)) n) 0
             (\<lambda>r c. grid_X s ! c)) 1 (\<lambda>r c. grid_Y s ! r))
        = map (\<lambda>y. map (\<lambda>x. [x, y]) (grid_X s)) (grid_Y s)"
  proof (rule nth_equalityI)
    show "length (map (map (take 2))
          (set_channel (set_channel (zero_image (length (grid_Y s)) (length (grid_X s)) n) 0
             (\<lambda>r c. grid_X s ! c)) 1 (\<lambda>r c. grid_Y s ! r)))
        = length (map (\<lambda>y. map (\<lambda>x. [x, y]) (grid_X s)) (grid_Y s))"
      by (simp add: set_channel_def zero_image_def)
  next
    fix r
    assume "r < length (map (map (take 2))
          (set_channel (set_channel (zero_image (length (grid_Y s)) (length (grid_X s)) n) 0
             (\<lambda>r c. grid_X s ! c)) 1 (\<lambda>r c. grid_Y s ! r)))"
    then have r: "r < length (grid_Y s)" by (simp add: set_channel_def zero_image_def)
    show "map (map (take 2))
          (set_channel (set_channel (zero_image (length (grid_Y s)) (length (grid_X s)) n) 0
             (\<lambda>r c. grid_X s ! c)) 1 (\<lambda>r c. grid_Y s ! r)) ! r
        = map (\<lambda>y. map (\<lambda>x. [x, y]) (grid_X s)) (grid_Y s) ! r"
      using r n by (intro nth_equalityI) (simp_all add: set_channel_def zero_image_def take2_cell)
  qed
  then show "positions (pl_image s') = map (\<lambda>y. map (\<lambda>x. [x, y]) (grid_X s)) (grid_Y s)"
    by (simp add: positions_def s')
qed

lemma initialize_image_positions:
  assumes "initialize_image s n k = (Inr 0, s')"
  shows "positions (pl_image s') = map (\<lambda>y. map (\<lambda>x. [x, y]) (grid_X s')) (grid_Y s')"
    and "linspace (fst (center_position s) - (fst (range s) ! 1 - fst (range s) ! 0) * 0.5)
           (fst (center_position s) + (fst (range s) ! 1 - fst (range s) ! 0) * 0.5)
           (fst (resolution s)) = Inr (grid_X s')"
    and "linspace (snd (center_position s) - (snd (range s) ! 1 - snd (range s) ! 0) * 0.5)
           (snd (center_position s) + (snd (range s) ! 1 - snd (range s) ! 0) * 0.5)
           (snd (resolution s)) = Inr (grid_Y s')"
proof -
  from assms obtain xs ys rx ry where
    xs: "linspace (fst (center_position s) - (fst (range s) ! 1 - fst (range s) ! 0) * 0.5)
           (fst (center_position s) + (fst (range s) ! 1 - fst (range s) ! 0) * 0.5)
           (fst (resolution s)) = Inr xs"
    and ys: "linspace (snd (center_position s) - (snd (range s) ! 1 - snd (range s) ! 0) * 0.5)
           (snd (center_position s) + (snd (range s) ! 1 - snd (range s) ! 0) * 0.5)
           (snd (resolution s)) = Inr ys"
    and al: "allocate_image (s\<lparr>grid_X := xs, grid_Y := ys, return_X := rx, return_Y := ry\<rparr>) n
               = (Inr 0, s')"
    unfolding initialize_image_def Let_def
    by (auto split: if_splits sum.splits)
  note ap = allocate_image_positions [OF al]
  from ap show "positions (pl_image s') = map (\<lambda>y. map (\<lambda>x. [x, y]) (grid_X s')) (grid_Y s')"
    by simp
  from ap xs show "linspace (fst (center_position s) - (fst (range s) ! 1 - fst (range s) ! 0) * 0.5)
           (fst (center_position s) + (fst (range s) ! 1 - fst (range s) ! 0) * 0.5)
           (fst (resolution s)) = Inr (grid_X s')" by simp
  from ap ys show "linspace (snd (center_position s) - (snd (range s) ! 1 - snd (range s) ! 0) * 0.5)
           (snd (center_position s) + (snd (range s) ! 1 - snd (range s) ! 0) * 0.5)
           (snd (resolution s)) = Inr (grid_Y s')" by simp
qed

text \<open>
  C8: when \<^verbatim>\<open>initialize_image\<close> succeeds, channels 0 and 1 of the pixel of row \<open>r\<close>
  and column \<open>c\<close> hold the \<open>c\<close>-th x position and the \<open>r\<close>-th y position of the grids
  that \<^verbatim>\<open>np.linspace\<close> builds from the range, the centre and the resolution; and no
  operation of the scan loop changes channel 0 or channel 1 of any pixel, nor the shape
  of the image: neither a sequence of tasks and topography corrections in any order,
  nor a run of the chain of slots and threads.
\<close>

theorem positions_written_once:
  "(initialize_image s0 n k = (Inr 0, s) \<longrightarrow>
      positions (pl_image s) = map (\<lambda>y. map (\<lambda>x. [x, y]) (grid_X s)) (grid_Y s)
      \<and> linspace (fst (center_position s0) - (fst (range s0) ! 1 - fst (range s0) ! 0) * 0.5)
           (fst (center_position s0) + (fst (range s0) ! 1 - fst (range s0) ! 0) * 0.5)
           (fst (resolution s0)) = Inr (grid_X s)
      \<and> linspace (snd (center_position s0) - (snd (range s0) ! 1 - snd (range s0) ! 0) * 0.5)
           (snd (center_position s0) + (snd (range s0) ! 1 - snd (range s0) ! 0) * 0.5)
           (snd (resolution s0)) = Inr (grid_Y s))
   \<and> positions (pl_image (fold (apply_op hw) ops s)) = positions (pl_image s)
   \<and> positions (pl_image (snd (run m hw pending s))) = positions (pl_image s)"
  using initialize_image_positions [of s0 n k s] fold_apply_op_positions [of hw ops s]
    run_positions [of m hw pending s]
  by blast

lemma small_init: "initialize_image small_state 7 8 = (Inr 0, allocated_state)"
  by (simp add: initialize_image_def allocate_image_def linspace_def
      arange_def zero_image_def set_channel_def allocated_state_def small_state_def
      init_state_def Let_def upt_conv_Cons eval_nat_numeral)

theorem positions_written_once_witness:
  "initialize_image small_state 7 8 = (Inr 0, allocated_state)
   \<and> positions (pl_image allocated_state)
       = [[[0, 0], [3 / 100000, 0]], [[0, 3 / 100000], [3 / 100000, 3 / 100000]]]
   \<and> positions (pl_image (fold (apply_op fault_hw)
         [Task (SigScanPixelOver (Some [[5, 3], [1, 2]]) None), CorrectTopo ''plane_fit'',
          Task ThreadHpixEnd] allocated_state))
       = positions (pl_image allocated_state)
   \<and> positions (pl_image (snd (run 10 fault_hw [SigNextLine] allocated_state)))
       = positions (pl_image allocated_state)"
  using positions_written_once [of small_state 7 8 allocated_state fault_hw
      "[Task (SigScanPixelOver (Some [[5, 3], [1, 2]]) None), CorrectTopo ''plane_fit'',
        Task ThreadHpixEnd]" 10 "[SigNextLine]"] small_init
  by (simp add: allocated_state_def)

section \<open>Faults during the acquisition\<close>

lemma isob_fields:
  "locked isob_state" "\<not> stopRequested isob_state" "meas_mode isob_state = ''isob''"
  "scan_mode isob_state = ''_hpix''" "line_position isob_state = (1, 0)"
  "number_sweeps isob_state = 1" "hw_calls isob_state = 0" "emitted isob_state = []"
  "current_position isob_state = (0, 0)" "line_number isob_state = 2"
  "pl_image isob_state = [[[0, 0, 4, 2, 7, 5, 1], [3 / 100000, 0, 0, 0, 0, 0, 0]],
                    [[0, 3 / 100000, 0, 0, 0, 0, 0], [3 / 100000, 3 / 100000, 0, 0, 0, 0, 0]]]"
  by (simp_all add: isob_state_def small_state_def init_state_def)

lemma step1: "dispatch fault_hw SigNextLine isob_state = after_move"
  by (simp add: dispatch_def scan_line_slot_def reset_position_def scan_line_move_def
      move_pix_def get_cell_def nrows_def ncols_def nchans_def attempt_def emit_def called_def
      isob_fields after_move_def fault_hw_def Let_def)

lemma step2: "dispatch fault_hw ThreadScanPixel after_move = after_fault"
  by (simp add: dispatch_def scan_pixel_def scan_odmr_line_def get2_def nrows_def ncols_def
      emit_def called_def isob_fields after_move_def after_fault_def fault_hw_def Let_def)

lemma step3: "dispatch fault_hw (SigScanPixelOver None (Some [[0]])) after_fault = after_fault"
  by (simp add: dispatch_def treat_data_def treat_data_isob_def subscript_def attempt_def
      isob_fields after_move_def after_fault_def Let_def)

lemma emitted_after [simp]:
  "emitted after_move = [SigUpdateRemTime, ThreadScanPixel]"
  "emitted after_fault = [SigUpdateRemTime, ThreadScanPixel, SigScanPixelOver None (Some [[0]])]"
  by (simp_all add: after_move_def after_fault_def)

lemma fault_run: "run 10 fault_hw [SigNextLine] isob_state = ([], after_fault)"
  by (simp add: eval_nat_numeral step1 step2 step3 handled_def isob_fields Let_def)

text \<open>
  C1 on the code: an iso-B scan is running with the cursor on pixel (row 0, column 1)
  and the acquisition returns counts whose sample \<open>[0, 0]\<close> is \<open>-1\<close>.
  \<^verbatim>\<open>scan_odmr_line\<close> sets \<open>stopRequested\<close> and returns \<open>None\<close>, \<^verbatim>\<open>scan_pixel\<close>
  hands \<open>None\<close> to \<^verbatim>\<open>treat_data\<close>, which raises on its first subscript before any
  write.  No task is left pending, so \<^verbatim>\<open>_scan_line\<close> never sees the flag: the module
  stays locked, \<^verbatim>\<open>kill_scanner\<close> is not run and no stop is signalled.  The image is
  unchanged.
\<close>

theorem sentinel_fault_leaves_scan_locked:
  "odmr_counts fault_hw 1 2 = Inr [[- 1, 5], [1, 1]]
   \<and> fst (run 10 fault_hw [SigNextLine] isob_state) = []
   \<and> locked (snd (run 10 fault_hw [SigNextLine] isob_state))
   \<and> stopRequested (snd (run 10 fault_hw [SigNextLine] isob_state))
   \<and> pl_image (snd (run 10 fault_hw [SigNextLine] isob_state)) = pl_image isob_state
   \<and> emitted (snd (run 10 fault_hw [SigNextLine] isob_state))
       = [SigUpdateRemTime, ThreadScanPixel, SigScanPixelOver None (Some [[0]])]"
  by (simp add: fault_run) (simp add: after_fault_def after_move_def isob_fields fault_hw_def)

lemma fullb_fields:
  "locked fullb_state" "\<not> stopRequested fullb_state" "meas_mode fullb_state = ''fullb''"
  "scan_mode fullb_state = ''_hpix''" "line_position fullb_state = (1, 0)"
  "number_sweeps fullb_state = 1" "hw_calls fullb_state = 0" "emitted fullb_state = []"
  "line_number fullb_state = 3" "odmr_mw_start fullb_state = 100"
  "odmr_mw_stop fullb_state = 120" "odmr_mw_step fullb_state = 10"
  by (simp_all add: fullb_state_def small_state_def init_state_def)

lemma rint_2: "rint 2 = 2"
  by (simp add: rint_def)

text \<open>
  C2 on the code: a full-B scan expects 3 samples per channel and the sweep returns 2.
  \<^verbatim>\<open>scan_pixel\<close> takes the branch of the retry and raises \<^verbatim>\<open>TypeError\<close> on the
  call of \<^verbatim>\<open>set_sweep_parameters_fullb\<close>, seven arguments for eight parameters:
  the window is not recomputed, there is no second acquisition (one hardware call in
  all), no signal is emitted, no task is left pending and the module stays locked.
\<close>

theorem short_sweep_raises_without_retry:
  "line_number fullb_state = 3
   \<and> odmr_counts short_sweep_hw 0 3 = Inr [[5, 1], [1, 1]]
   \<and> scan_pixel short_sweep_hw fullb_state = (Inl TypeError, fullb_state\<lparr>hw_calls := 1\<rparr>)
   \<and> run 10 short_sweep_hw [ThreadScanPixel] fullb_state = ([], fullb_state\<lparr>hw_calls := 1\<rparr>)
   \<and> locked (fullb_state\<lparr>hw_calls := 1\<rparr>)"
proof -
  have sp: "scan_pixel short_sweep_hw fullb_state = (Inl TypeError, fullb_state\<lparr>hw_calls := 1\<rparr>)"
    by (simp add: scan_pixel_def scan_odmr_line_def get2_def nrows_def ncols_def subscript_def
        attempt_def positional_call_def called_def fullb_fields short_sweep_hw_def fault_hw_def
        rint_2 Let_def)
  have "run 10 short_sweep_hw [ThreadScanPixel] fullb_state = ([], fullb_state\<lparr>hw_calls := 1\<rparr>)"
    by (simp add: eval_nat_numeral dispatch_def sp fullb_fields Let_def)
  with sp show ?thesis
    by (simp add: fullb_fields) (simp add: short_sweep_hw_def fault_hw_def)
qed

end
